theory Spec2Isabelle
  imports Main "HOL-Library.Word"
begin

unbundle bit_operations_syntax

section \<open>Go strings\<close>

text \<open>
  A Go string is a sequence of bytes; it is modelled as a \<^typ>\<open>string\<close> (a list of 8-bit
  characters). The functions of package \<open>strings\<close> that the two packages call are
  written out here by what the standard library documents for them.
\<close>

definition HasPrefix :: "string \<Rightarrow> string \<Rightarrow> bool" where
  "HasPrefix s prefix = (length s \<ge> length prefix \<and> take (length prefix) s = prefix)"

definition HasSuffix :: "string \<Rightarrow> string \<Rightarrow> bool" where
  "HasSuffix s suffix =
     (length s \<ge> length suffix \<and> drop (length s - length suffix) s = suffix)"

text \<open>\<open>strings.Contains(s, substr)\<close>: \<open>substr\<close> occurs in \<open>s\<close> at some byte offset.\<close>

fun Contains :: "string \<Rightarrow> string \<Rightarrow> bool" where
  "Contains [] substr = (substr = [])"
| "Contains (c # s) substr = (HasPrefix (c # s) substr \<or> Contains s substr)"

text \<open>
  The verb \<open>%q\<close> of package \<open>fmt\<close>, on the arguments it is given in this code: constants
  of printable ASCII holding neither a double quote nor a backslash, for which the
  quoted form is the text between two double quotes.
\<close>

definition quoted :: "string \<Rightarrow> string" where
  "quoted s = [CHR 0x22] @ s @ [CHR 0x22]"

section \<open>Token exchange: constants\<close>

definition tokenTypeAccessToken :: string where
  "tokenTypeAccessToken = ''urn:ietf:params:oauth:token-type:access_token''"

definition tokenTypeJWT :: string where
  "tokenTypeJWT = ''urn:ietf:params:oauth:token-type:jwt''"

text \<open>
  Modelled from the spec: the constants of package \<open>oidcapi\<close>
  (\<open>generated/latest/apis/supervisor/oidc\<close>), whose declarations are not among the
  sources. The specification gives the grant type of the token endpoint request, the
  scopes of its happy-path scenario and the username claim; the reserved CLI client
  identifier is the one the comment in \<open>validateParams\<close> names.
\<close>

definition GrantTypeTokenExchange :: string where
  "GrantTypeTokenExchange = ''urn:ietf:params:oauth:grant-type:token-exchange''"

definition ScopeOpenID :: string where
  "ScopeOpenID = ''openid''"

definition ScopeRequestAudience :: string where
  "ScopeRequestAudience = ''pinniped:request-audience''"

definition ScopeUsername :: string where
  "ScopeUsername = ''username''"

definition IDTokenClaimUsername :: string where
  "IDTokenClaimUsername = ''username''"

definition ClientIDPinnipedCLI :: string where
  "ClientIDPinnipedCLI = ''pinniped-cli''"

section \<open>Token exchange: data\<close>

text \<open>
  \<open>url.Values\<close> maps a key to the list of its values; a key that is absent has the
  empty list. \<open>Get\<close> returns the first value of the key, or the empty string.
\<close>

type_synonym Values = "string \<Rightarrow> string list"

definition Get :: "Values \<Rightarrow> string \<Rightarrow> string" where
  "Get v key = (case v key of [] \<Rightarrow> [] | x # _ \<Rightarrow> x)"

record stsParams =
  subjectAccessToken :: string
  requestedAudience :: string

text \<open>
  The errors of the OAuth2 framework are values of one of its kinds, carrying the hint
  this code sets with \<open>WithHint\<close> or \<open>WithHintf\<close> (\<open>None\<close> where the code sets none)
  and the cause given to \<open>WithWrap\<close>. An error that a collaborator returns is passed on
  as it is (\<open>Foreign\<close>). \<open>errors.WithStack\<close> only records a stack trace and is the
  identity here.
\<close>

datatype error_kind =
    ErrUnknownRequest
  | ErrInvalidRequest
  | ErrInvalidGrant
  | ErrUnauthorizedClient
  | ErrAccessDenied
  | ErrRequestUnauthorized
  | ErrServerError

datatype 'e error =
    RFC6749Error error_kind "string option" "'e error option"
  | Foreign 'e

definition WithHint :: "error_kind \<Rightarrow> string \<Rightarrow> 'e error" where
  "WithHint k hint = RFC6749Error k (Some hint) None"

section \<open>Token exchange: parameter validation\<close>

text \<open>
  The loop of \<open>validateParams\<close> over the parameters that are not supported: the first
  one with a non-empty value ends the validation.
\<close>

fun unsupportedParam :: "Values \<Rightarrow> string list \<Rightarrow> string option" where
  "unsupportedParam params [] = None"
| "unsupportedParam params (param # rest) =
     (if Get params param \<noteq> [] then Some param else unsupportedParam params rest)"

definition unsupportedParams :: "string list" where
  "unsupportedParams = [''resource'', ''scope'', ''actor_token'', ''actor_token_type'']"

definition validateParams :: "Values \<Rightarrow> 'e error + stsParams" where
  "validateParams params =
     (let aud = Get params ''audience'' in
      if aud = [] then Inl (WithHint ErrInvalidRequest ''Missing 'audience' parameter.'')
      else let tok = Get params ''subject_token'' in
      if tok = [] then Inl (WithHint ErrInvalidRequest ''Missing 'subject_token' parameter.'')
      else if Get params ''subject_token_type'' \<noteq> tokenTypeAccessToken then
        Inl (WithHint ErrInvalidRequest
          (''Unsupported 'subject_token_type' parameter value, must be ''
             @ quoted tokenTypeAccessToken @ ''.''))
      else if Get params ''requested_token_type'' \<noteq> tokenTypeJWT then
        Inl (WithHint ErrInvalidRequest
          (''Unsupported 'requested_token_type' parameter value, must be ''
             @ quoted tokenTypeJWT @ ''.''))
      else case unsupportedParam params unsupportedParams of
        Some param \<Rightarrow>
          Inl (WithHint ErrInvalidRequest (''Unsupported parameter '' @ quoted param @ ''.''))
      | None \<Rightarrow>
          if Contains aud ''.pinniped.dev'' then
            Inl (WithHint ErrInvalidRequest
              (''requested audience cannot contain '' @ [CHR 0x27] @ ''.pinniped.dev'' @ [CHR 0x27]))
          else if aud = ClientIDPinnipedCLI then
            Inl (WithHint ErrInvalidRequest
              (''requested audience cannot equal '' @ [CHR 0x27] @ ClientIDPinnipedCLI @ [CHR 0x27]))
          else Inr \<lparr>subjectAccessToken = tok, requestedAudience = aud\<rparr>)"

section \<open>Token exchange: the framework's requests and responses\<close>

text \<open>
  \<open>fosite.Arguments\<close> is a list of strings. \<open>ExactOne\<close> holds when the list has one
  element, equal to the name. The membership test \<open>Has\<close> of the framework is taken as
  a parameter of the handler below.
\<close>

definition ExactOne :: "string list \<Rightarrow> string \<Rightarrow> bool" where
  "ExactOne r name = (length r = 1 \<and> r ! 0 = name)"

record DefaultClient =
  ID :: string
  ClientGrantTypes :: "string list"

text \<open>
  Modelled from the spec: package \<open>psession\<close> is not among the sources. A session
  either has the typed session shape, carrying the extra ID-token claims by name, or
  it has not. A claim is a string or a value of another type.
\<close>

datatype claim = StringClaim string | OtherClaim

datatype Session = PinnipedSession "string \<Rightarrow> claim option" | OtherSession

text \<open>
  The parts of a request that the handler reads: the client, the grant types of the
  request, the granted scopes, the form and the session.
\<close>

record Request =
  Client :: DefaultClient
  GrantTypes :: "string list"
  GrantedScope :: "string list"
  Form :: Values
  Session :: Session

definition NewAccessRequest :: "Session \<Rightarrow> Request" where
  "NewAccessRequest session =
     \<lparr>Client = \<lparr>ID = [], ClientGrantTypes = []\<rparr>, GrantTypes = [], GrantedScope = [],
      Form = (\<lambda>_. []), Session = session\<rparr>"

record Responder =
  AccessToken :: string
  TokenType :: string
  Extra :: "string \<Rightarrow> string option"

definition SetAccessToken :: "string \<Rightarrow> Responder \<Rightarrow> Responder" where
  "SetAccessToken token r = r\<lparr>AccessToken := token\<rparr>"

definition SetTokenType :: "string \<Rightarrow> Responder \<Rightarrow> Responder" where
  "SetTokenType name r = r\<lparr>TokenType := name\<rparr>"

definition SetExtra :: "string \<Rightarrow> string \<Rightarrow> Responder \<Rightarrow> Responder" where
  "SetExtra key v r = r\<lparr>Extra := (Extra r)(key \<mapsto> v)\<rparr>"

section \<open>Token exchange: the handler\<close>

text \<open>
  The collaborators of the handler are injected: the ID-token strategy
  (\<open>GenerateIDToken\<close>), the access-token strategy (\<open>AccessTokenSignature\<close>,
  \<open>ValidateAccessToken\<close>) and the access-token storage (\<open>GetAccessTokenSession\<close>).
  They may read and change state of their own (storage, clock, keys, the context of
  the call), which is the state \<open>'s\<close> passed through every call; their errors are
  of type \<open>'e\<close>.
\<close>

record ('s, 'e) TokenExchangeHandler =
  GenerateIDToken :: "Request \<Rightarrow> 's \<Rightarrow> ('e error + string) \<times> 's"
  AccessTokenSignature :: "string \<Rightarrow> string"
  ValidateAccessToken :: "Request \<Rightarrow> string \<Rightarrow> 's \<Rightarrow> 'e error option \<times> 's"
  GetAccessTokenSession :: "string \<Rightarrow> Session \<Rightarrow> 's \<Rightarrow> ('e error + Request) \<times> 's"

definition CanHandleTokenEndpointRequest :: "Request \<Rightarrow> bool" where
  "CanHandleTokenEndpointRequest requester =
     ExactOne (GrantTypes requester) GrantTypeTokenExchange"

definition HandleTokenEndpointRequest :: "Request \<Rightarrow> 'e error option" where
  "HandleTokenEndpointRequest requester =
     (if \<not> CanHandleTokenEndpointRequest requester
      then Some (RFC6749Error ErrUnknownRequest None None)
      else None)"

definition validateSession :: "Request \<Rightarrow> 'e error option" where
  "validateSession requester =
     (case Session requester of
        OtherSession \<Rightarrow> Some (WithHint ErrServerError ''Invalid session storage.'')
      | PinnipedSession extra \<Rightarrow>
          (let (username, ok) =
                 (case extra IDTokenClaimUsername of
                    Some (StringClaim username) \<Rightarrow> (username, True)
                  | _ \<Rightarrow> ([], False))
           in if \<not> ok \<or> username = [] then
                Some (WithHint ErrAccessDenied
                  (''No username found in session. Ensure that the '' @ quoted ScopeUsername
                     @ '' scope was requested and granted at the authorization endpoint.''))
              else None))"

definition validateAccessToken ::
  "('s, 'e) TokenExchangeHandler \<Rightarrow> Request \<Rightarrow> string \<Rightarrow> 's \<Rightarrow> ('e error + Request) \<times> 's"
where
  "validateAccessToken t requester accessToken s =
     (let signature = AccessTokenSignature t accessToken in
      case GetAccessTokenSession t signature (Session requester) s of
        (Inl err, s1) \<Rightarrow>
          (Inl (RFC6749Error ErrRequestUnauthorized
                  (Some ''Invalid 'subject_token' parameter value.'') (Some err)), s1)
      | (Inr originalRequester, s1) \<Rightarrow>
          (case ValidateAccessToken t originalRequester accessToken s1 of
             (Some err, s2) \<Rightarrow> (Inl err, s2)
           | (None, s2) \<Rightarrow> (Inr originalRequester, s2)))"

text \<open>
  \<open>mintJWT\<close> builds a fresh access request on the session of the original request and
  overwrites the ID of its (fresh) client with the audience.
\<close>

definition downscopedRequest :: "Request \<Rightarrow> string \<Rightarrow> Request" where
  "downscopedRequest requester audience =
     (let downscoped = NewAccessRequest (Session requester)
      in downscoped\<lparr>Client := (Client downscoped)\<lparr>ID := audience\<rparr>\<rparr>)"

definition mintJWT ::
  "('s, 'e) TokenExchangeHandler \<Rightarrow> Request \<Rightarrow> string \<Rightarrow> 's \<Rightarrow> ('e error + string) \<times> 's"
where
  "mintJWT t requester audience s = GenerateIDToken t (downscopedRequest requester audience) s"

text \<open>
  The result is the error returned (\<open>None\<close> for \<open>nil\<close>), the responder as the call
  leaves it, and the state of the collaborators.
\<close>

definition PopulateTokenEndpointResponse ::
  "('s, 'e) TokenExchangeHandler \<Rightarrow> (string list \<Rightarrow> string \<Rightarrow> bool) \<Rightarrow> Request \<Rightarrow> Responder
     \<Rightarrow> 's \<Rightarrow> 'e error option \<times> Responder \<times> 's"
where
  "PopulateTokenEndpointResponse t Has requester responder s =
     (case HandleTokenEndpointRequest requester of
        Some err \<Rightarrow> (Some err, responder, s)
      | None \<Rightarrow>
     (case validateParams (Form requester) of
        Inl err \<Rightarrow> (Some err, responder, s)
      | Inr params \<Rightarrow>
     (case validateAccessToken t requester (subjectAccessToken params) s of
        (Inl err, s1) \<Rightarrow> (Some err, responder, s1)
      | (Inr originalRequester, s1) \<Rightarrow>
          if ID (Client originalRequester) \<noteq> ID (Client requester) then
            (Some (WithHint ErrInvalidGrant
               ''The OAuth 2.0 Client ID from this request does not match the one from the authorize request.''),
             responder, s1)
          else if \<not> Has (ClientGrantTypes (Client requester)) GrantTypeTokenExchange then
            (Some (WithHint ErrUnauthorizedClient
               (''The OAuth 2.0 Client is not allowed to use token exchange grant ''
                  @ quoted GrantTypeTokenExchange @ ''.'')),
             responder, s1)
          else if \<not> Has (GrantedScope originalRequester) ScopeRequestAudience then
            (Some (WithHint ErrAccessDenied
               (''Missing the '' @ quoted ScopeRequestAudience @ '' scope.'')),
             responder, s1)
          else if \<not> Has (GrantedScope originalRequester) ScopeOpenID then
            (Some (WithHint ErrAccessDenied
               (''Missing the '' @ quoted ScopeOpenID @ '' scope.'')),
             responder, s1)
          else
            (case validateSession originalRequester of
               Some err \<Rightarrow> (Some err, responder, s1)
             | None \<Rightarrow>
            (case mintJWT t originalRequester (requestedAudience params) s1 of
               (Inl err, s2) \<Rightarrow> (Some err, responder, s2)
             | (Inr responseToken, s2) \<Rightarrow>
                 (None,
                  SetExtra ''issued_token_type'' tokenTypeJWT
                    (SetTokenType ''N_A'' (SetAccessToken responseToken responder)),
                  s2))))))"

section \<open>LDAP: host and port\<close>

text \<open>
  \<open>IndexByte\<close> and \<open>LastIndexByte\<close> give the offset of the first and of the last
  occurrence of a byte, \<open>None\<close> where Go returns \<open>-1\<close>.
\<close>

fun IndexByte :: "string \<Rightarrow> char \<Rightarrow> nat option" where
  "IndexByte [] b = None"
| "IndexByte (x # xs) b = (if x = b then Some 0 else map_option Suc (IndexByte xs b))"

definition LastIndexByte :: "string \<Rightarrow> char \<Rightarrow> nat option" where
  "LastIndexByte s b = map_option (\<lambda>k. length s - 1 - k) (IndexByte (rev s) b)"

text \<open>\<open>net.AddrError\<close> and its method \<open>Error\<close>.\<close>

record AddrError =
  Err :: string
  Addr :: string

definition AddrError_Error :: "AddrError \<Rightarrow> string" where
  "AddrError_Error e =
     (if Addr e \<noteq> [] then ''address '' @ Addr e @ '': '' @ Err e else Err e)"

definition addrErr :: "string \<Rightarrow> string \<Rightarrow> AddrError + string \<times> string" where
  "addrErr addr why = Inl \<lparr>Err = why, Addr = addr\<rparr>"

definition missingPort :: string where
  "missingPort = ''missing port in address''"

definition tooManyColons :: string where
  "tooManyColons = ''too many colons in address''"

text \<open>
  The end of \<open>net.SplitHostPort\<close>, once the host is known: no bracket may follow offset
  \<open>j\<close> (opening) or \<open>k\<close> (closing); the port is what follows the last colon, at \<open>i\<close>.
\<close>

definition splitRest ::
  "string \<Rightarrow> nat \<Rightarrow> string \<Rightarrow> nat \<Rightarrow> nat \<Rightarrow> AddrError + string \<times> string"
where
  "splitRest hostport i host j k =
     (if IndexByte (drop j hostport) (CHR ''['') \<noteq> None then
        addrErr hostport ''unexpected '[' in address''
      else if IndexByte (drop k hostport) (CHR '']'') \<noteq> None then
        addrErr hostport ''unexpected ']' in address''
      else Inr (host, drop (i + 1) hostport))"

definition SplitHostPort :: "string \<Rightarrow> AddrError + string \<times> string" where
  "SplitHostPort hostport =
     (case LastIndexByte hostport (CHR '':'') of
        None \<Rightarrow> addrErr hostport missingPort
      | Some i \<Rightarrow>
          if hostport ! 0 = CHR ''['' then
            (case IndexByte hostport (CHR '']'') of
               None \<Rightarrow> addrErr hostport ''missing ']' in address''
             | Some end \<Rightarrow>
                 if end + 1 = length hostport then addrErr hostport missingPort
                 else if end + 1 = i then
                   splitRest hostport i (take (end - 1) (drop 1 hostport)) 1 (end + 1)
                 else if hostport ! (end + 1) = CHR '':'' then addrErr hostport tooManyColons
                 else addrErr hostport missingPort)
          else
            (let host = take i hostport in
             if IndexByte host (CHR '':'') \<noteq> None then addrErr hostport tooManyColons
             else splitRest hostport i host 0 0))"

definition JoinHostPort :: "string \<Rightarrow> string \<Rightarrow> string" where
  "JoinHostPort host port =
     (if IndexByte host (CHR '':'') \<noteq> None then ''['' @ host @ '']:'' @ port
      else host @ '':'' @ port)"

text \<open>The \<open>switch\<close> at the end of \<open>hostAndPortWithDefaultPort\<close>.\<close>

definition joinHostAndPort :: "string \<Rightarrow> string \<Rightarrow> string" where
  "joinHostAndPort host port =
     (if port \<noteq> [] \<and> HasPrefix host ''['' \<and> HasSuffix host '']'' then host @ '':'' @ port
      else if port \<noteq> [] then JoinHostPort host port
      else host)"

text \<open>The error of the result is given by its message.\<close>

definition hostAndPortWithDefaultPort :: "string \<Rightarrow> string \<Rightarrow> string + string" where
  "hostAndPortWithDefaultPort hostAndPort defaultPort =
     (case SplitHostPort hostAndPort of
        Inl err \<Rightarrow>
          if HasSuffix (AddrError_Error err) '': missing port in address''
          then Inr (joinHostAndPort hostAndPort defaultPort)
          else Inl (AddrError_Error err)
      | Inr (host, port) \<Rightarrow> Inr (joinHostAndPort host port))"

section \<open>LDAP: search filters\<close>

definition ldapsScheme :: string where
  "ldapsScheme = ''ldaps''"

definition distinguishedNameAttributeName :: string where
  "distinguishedNameAttributeName = ''dn''"

definition userSearchFilterInterpolationLocationMarker :: string where
  "userSearchFilterInterpolationLocationMarker = ''{}''"

definition invalidCredentialsErrorPrefix :: string where
  "invalidCredentialsErrorPrefix = ''LDAP Result Code 49 \"Invalid Credentials\":''"

definition DefaultLdapsPort :: string where
  "DefaultLdapsPort = ''636''"

text \<open>
  \<open>ldap.EscapeFilter\<close>: a byte that must be escaped becomes a backslash and its two
  hexadecimal digits; the library counts these bytes first and fills a buffer, which
  gives the string built here byte by byte.
\<close>

definition mustEscape :: "char \<Rightarrow> bool" where
  "mustEscape b =
     ((of_char b :: 8 word) > 0x7f \<or> b = CHR ''('' \<or> b = CHR '')'' \<or> b = CHR 0x5C
        \<or> b = CHR ''*'' \<or> b = CHR 0x00)"

definition hex :: string where
  "hex = ''0123456789abcdef''"

fun EscapeFilter :: "string \<Rightarrow> string" where
  "EscapeFilter [] = []"
| "EscapeFilter (b # s) =
     (if mustEscape b then
        [CHR 0x5C, hex ! unat (drop_bit 4 (of_char b :: 8 word)),
         hex ! unat ((of_char b :: 8 word) AND 0xf)] @ EscapeFilter s
      else b # EscapeFilter s)"

text \<open>
  \<open>strings.ReplaceAll(s, old, new)\<close> for a pattern \<open>old\<close> that is not empty, which is
  how the provider calls it: the occurrences are replaced from the left, each search
  going on after the occurrence replaced before.
\<close>

function ReplaceAll :: "string \<Rightarrow> string \<Rightarrow> string \<Rightarrow> string" where
  "ReplaceAll [] old new = []"
| "ReplaceAll (x # s) old new =
     (if old \<noteq> [] \<and> HasPrefix (x # s) old
      then new @ ReplaceAll (drop (length old) (x # s)) old new
      else x # ReplaceAll s old new)"
  by pat_completeness auto
termination
  by (relation "measure (\<lambda>(s, old, new). length s)") (auto simp: HasPrefix_def)

text \<open>Decimal digits of a number, as the verb \<open>%d\<close> prints it.\<close>

function Itoa :: "nat \<Rightarrow> string" where
  "Itoa n = (if n < 10 then [char_of (48 + n)] else Itoa (n div 10) @ [char_of (48 + n mod 10)])"
  by pat_completeness auto
termination
  by (relation "measure id") auto

section \<open>LDAP: data\<close>

text \<open>
  A value of type \<open>[]byte\<close> is \<open>nil\<close> or a view of a backing array: the address of the
  array, the offset of the first element and the length. The backing arrays live in a
  heap; copying the slice value copies the view, not the array. Writing an element
  outside the length panics (\<open>None\<close>).
\<close>

type_synonym heap = "nat \<Rightarrow> 8 word list"

datatype slice = NilSlice | Slice nat nat nat

fun bytesOf :: "heap \<Rightarrow> slice \<Rightarrow> 8 word list" where
  "bytesOf h NilSlice = []"
| "bytesOf h (Slice a off n) = take n (drop off (h a))"

fun setIndex :: "heap \<Rightarrow> slice \<Rightarrow> nat \<Rightarrow> 8 word \<Rightarrow> heap option" where
  "setIndex h NilSlice i b = None"
| "setIndex h (Slice a off n) i b =
     (if i < n then Some (h(a := (h a)[off + i := b])) else None)"

record EntryAttribute =
  Name :: string
  Values :: "string list"

record Entry =
  DN :: string
  Attributes :: "EntryAttribute list"

fun attributeValues :: "EntryAttribute list \<Rightarrow> string \<Rightarrow> string list" where
  "attributeValues [] attribute = []"
| "attributeValues (attr # rest) attribute =
     (if EntryAttribute.Name attr = attribute then Values attr
      else attributeValues rest attribute)"

definition GetAttributeValues :: "Entry \<Rightarrow> string \<Rightarrow> string list" where
  "GetAttributeValues e attribute = attributeValues (Entry.Attributes e) attribute"

definition ScopeWholeSubtree :: nat where
  "ScopeWholeSubtree = 2"

definition DerefAlways :: nat where
  "DerefAlways = 3"

record SearchRequest =
  BaseDN :: string
  Scope :: nat
  DerefAliases :: nat
  SizeLimit :: nat
  TimeLimit :: nat
  TypesOnly :: bool
  Filter :: string
  Attributes :: "string list"
  Controls :: "string list"

text \<open>
  A connection and a dialer act on the world outside the program, of type \<open>'w\<close>. An
  error is given by its message, the string that its method \<open>Error\<close> returns and the
  code reads. Of a search result the code reads the entries only.
\<close>

record 'w Conn =
  Bind :: "string \<Rightarrow> string \<Rightarrow> 'w \<Rightarrow> string option \<times> 'w"
  Search :: "SearchRequest \<Rightarrow> 'w \<Rightarrow> (string + Entry list) \<times> 'w"
  Close :: "'w \<Rightarrow> 'w"

type_synonym ('w, 'ctx) LDAPDialer = "'ctx \<Rightarrow> string \<Rightarrow> 'w \<Rightarrow> (string + 'w Conn) \<times> 'w"

record UserSearchConfig =
  Base :: string
  Filter :: string
  UsernameAttribute :: string
  UIDAttribute :: string

record ('w, 'ctx) ProviderConfig =
  Name :: string
  Host :: string
  CABundle :: slice
  BindUsername :: string
  BindPassword :: string
  UserSearch :: UserSearchConfig
  Dialer :: "('w, 'ctx) LDAPDialer option"

record ('w, 'ctx) Provider =
  c :: "('w, 'ctx) ProviderConfig"

record DefaultInfo =
  Name :: string
  UID :: string
  Groups :: "string list"

record Response =
  User :: DefaultInfo

text \<open>
  What the default dialer takes from the system: whether a PEM bundle holds a
  certificate that parses (\<open>AppendCertsFromPEM\<close>), and the TLS dial (minimum version
  1.2) to an address, trusting the given roots or, with \<open>None\<close>, those of the system,
  on which the LDAP connection is started.
\<close>

record ('w, 'ctx) tls =
  AppendCertsFromPEM :: "8 word list \<Rightarrow> bool"
  DialContext :: "'ctx \<Rightarrow> 8 word list option \<Rightarrow> string \<Rightarrow> 'w \<Rightarrow> (string + 'w Conn) \<times> 'w"

text \<open>
  Every call that reaches the network is recorded, in order, beside the world: the
  state of an operation is the world and the calls made so far.
\<close>

datatype io_event =
    DialEv string
  | BindEv string string
  | SearchEv SearchRequest
  | CloseEv

type_synonym 'w io = "'w \<times> io_event list"

definition callDial ::
  "('w, 'ctx) LDAPDialer \<Rightarrow> 'ctx \<Rightarrow> string \<Rightarrow> 'w io \<Rightarrow> (string + 'w Conn) \<times> 'w io"
where
  "callDial d ctx hostAndPort st =
     (case d ctx hostAndPort (fst st) of
        (r, w') \<Rightarrow> (r, (w', snd st @ [DialEv hostAndPort])))"

definition callBind :: "'w Conn \<Rightarrow> string \<Rightarrow> string \<Rightarrow> 'w io \<Rightarrow> string option \<times> 'w io" where
  "callBind conn username password st =
     (case Bind conn username password (fst st) of
        (r, w') \<Rightarrow> (r, (w', snd st @ [BindEv username password])))"

definition callSearch ::
  "'w Conn \<Rightarrow> SearchRequest \<Rightarrow> 'w io \<Rightarrow> (string + Entry list) \<times> 'w io"
where
  "callSearch conn searchRequest st =
     (case Search conn searchRequest (fst st) of
        (r, w') \<Rightarrow> (r, (w', snd st @ [SearchEv searchRequest])))"

definition callClose :: "'w Conn \<Rightarrow> 'w io \<Rightarrow> 'w io" where
  "callClose conn st = (Close conn (fst st), snd st @ [CloseEv])"

section \<open>LDAP: the provider\<close>

definition New :: "('w, 'ctx) ProviderConfig \<Rightarrow> ('w, 'ctx) Provider" where
  "New config = \<lparr>c = config\<rparr>"

definition GetConfig :: "('w, 'ctx) Provider \<Rightarrow> ('w, 'ctx) ProviderConfig" where
  "GetConfig p = c p"

definition GetName :: "('w, 'ctx) Provider \<Rightarrow> string" where
  "GetName p = ProviderConfig.Name (c p)"

definition GetURL :: "('w, 'ctx) Provider \<Rightarrow> string" where
  "GetURL p = ldapsScheme @ ''://'' @ Host (c p)"

text \<open>\<open>ldap.NewError(ldap.ErrorNetwork, err)\<close>, by its message.\<close>

definition NewErrorNetwork :: "string \<Rightarrow> string" where
  "NewErrorNetwork err = ''LDAP Result Code 200 \"Network Error\": '' @ err"

definition dialTLS ::
  "('w, 'ctx) tls \<Rightarrow> heap \<Rightarrow> ('w, 'ctx) Provider \<Rightarrow> 'ctx \<Rightarrow> string \<Rightarrow> 'w io
     \<Rightarrow> (string + 'w Conn) \<times> 'w io"
where
  "dialTLS sys h p ctx hostAndPort st =
     (if CABundle (c p) \<noteq> NilSlice \<and> \<not> AppendCertsFromPEM sys (bytesOf h (CABundle (c p)))
      then (Inl (NewErrorNetwork ''could not parse CA bundle''), st)
      else
        let rootCAs = (if CABundle (c p) \<noteq> NilSlice then Some (bytesOf h (CABundle (c p)))
                       else None)
        in case callDial (\<lambda>ctx. DialContext sys ctx rootCAs) ctx hostAndPort st of
             (Inl err, st1) \<Rightarrow> (Inl (NewErrorNetwork err), st1)
           | (Inr conn, st1) \<Rightarrow> (Inr conn, st1))"

definition dial ::
  "('w, 'ctx) tls \<Rightarrow> heap \<Rightarrow> ('w, 'ctx) Provider \<Rightarrow> 'ctx \<Rightarrow> 'w io \<Rightarrow> (string + 'w Conn) \<times> 'w io"
where
  "dial sys h p ctx st =
     (case hostAndPortWithDefaultPort (Host (c p)) DefaultLdapsPort of
        Inl err \<Rightarrow> (Inl (NewErrorNetwork err), st)
      | Inr hostAndPort \<Rightarrow>
          (case Dialer (c p) of
             Some d \<Rightarrow> callDial d ctx hostAndPort st
           | None \<Rightarrow> dialTLS sys h p ctx hostAndPort st))"

definition validateConfig :: "('w, 'ctx) Provider \<Rightarrow> string option" where
  "validateConfig p =
     (if UsernameAttribute (UserSearch (c p)) = distinguishedNameAttributeName
         \<and> length (UserSearchConfig.Filter (UserSearch (c p))) = 0
      then Some ''must specify UserSearch Filter when UserSearch UsernameAttribute is \"dn\"''
      else None)"

definition TestConnection ::
  "('w, 'ctx) tls \<Rightarrow> heap \<Rightarrow> ('w, 'ctx) Provider \<Rightarrow> 'ctx \<Rightarrow> 'w io \<Rightarrow> string option \<times> 'w io"
where
  "TestConnection sys h p ctx st =
     (case validateConfig p of
        Some err \<Rightarrow> (Some err, st)
      | None \<Rightarrow>
     (case dial sys h p ctx st of
        (Inl err, st1) \<Rightarrow>
          (Some (''error dialing host \"'' @ Host (c p) @ ''\": '' @ err), st1)
      | (Inr conn, st1) \<Rightarrow>
          (case callBind conn (BindUsername (c p)) (BindPassword (c p)) st1 of
             (Some err, st2) \<Rightarrow>
               (Some (''error binding as \"'' @ BindUsername (c p) @ ''\": '' @ err),
                callClose conn st2)
           | (None, st2) \<Rightarrow> (None, callClose conn st2))))"

definition escapeUsernameForSearchFilter :: "('w, 'ctx) Provider \<Rightarrow> string \<Rightarrow> string" where
  "escapeUsernameForSearchFilter p username = EscapeFilter username"

definition userSearchFilter :: "('w, 'ctx) Provider \<Rightarrow> string \<Rightarrow> string" where
  "userSearchFilter p username =
     (let safeUsername = escapeUsernameForSearchFilter p username in
      if length (UserSearchConfig.Filter (UserSearch (c p))) = 0 then
        ''('' @ UsernameAttribute (UserSearch (c p)) @ ''='' @ safeUsername @ '')''
      else
        let filter = ReplaceAll (UserSearchConfig.Filter (UserSearch (c p)))
                       userSearchFilterInterpolationLocationMarker safeUsername
        in if HasPrefix filter ''('' \<and> HasSuffix filter '')'' then filter
           else ''('' @ filter @ '')'')"

definition userSearchRequestedAttributes :: "('w, 'ctx) Provider \<Rightarrow> string list" where
  "userSearchRequestedAttributes p =
     (let attributes = [];
          attributes =
            (if UsernameAttribute (UserSearch (c p)) \<noteq> distinguishedNameAttributeName
             then attributes @ [UsernameAttribute (UserSearch (c p))] else attributes);
          attributes =
            (if UIDAttribute (UserSearch (c p)) \<noteq> distinguishedNameAttributeName
             then attributes @ [UIDAttribute (UserSearch (c p))] else attributes)
      in attributes)"

definition userSearchRequest :: "('w, 'ctx) Provider \<Rightarrow> string \<Rightarrow> SearchRequest" where
  "userSearchRequest p username =
     \<lparr>BaseDN = Base (UserSearch (c p)),
      Scope = ScopeWholeSubtree,
      DerefAliases = DerefAlways,
      SizeLimit = 2,
      TimeLimit = 90,
      TypesOnly = False,
      Filter = userSearchFilter p username,
      Attributes = userSearchRequestedAttributes p,
      Controls = []\<rparr>"

definition getSearchResultAttributeValue ::
  "('w, 'ctx) Provider \<Rightarrow> string \<Rightarrow> Entry \<Rightarrow> string \<Rightarrow> string + string"
where
  "getSearchResultAttributeValue p attributeName fromUserEntry username =
     (if attributeName = distinguishedNameAttributeName then Inr (DN fromUserEntry)
      else
        let attributeValues = GetAttributeValues fromUserEntry attributeName in
        if length attributeValues \<noteq> 1 then
          Inl (''found '' @ Itoa (length attributeValues) @ '' values for attribute \"''
                 @ attributeName @ ''\" while searching for user \"'' @ username
                 @ ''\", but expected 1 result'')
        else
          let attributeValue = attributeValues ! 0 in
          if length attributeValue = 0 then
            Inl (''found empty value for attribute \"'' @ attributeName
                   @ ''\" while searching for user \"'' @ username
                   @ ''\", but expected value to be non-empty'')
          else Inr attributeValue)"

text \<open>
  The bind function of the end user is given the connection and the DN found. The
  calls to the debug log are left out. A result without an error is the pair of the
  mapped username and UID, both empty when the user was not found or the password
  was not accepted.
\<close>

type_synonym 'w bindFunc = "'w Conn \<Rightarrow> string \<Rightarrow> 'w io \<Rightarrow> string option \<times> 'w io"

definition searchAndBindUser ::
  "('w, 'ctx) Provider \<Rightarrow> 'w Conn \<Rightarrow> string \<Rightarrow> 'w bindFunc \<Rightarrow> 'w io
     \<Rightarrow> (string + string \<times> string) \<times> 'w io"
where
  "searchAndBindUser p conn username bindFunc st =
     (case callSearch conn (userSearchRequest p username) st of
        (Inl err, st1) \<Rightarrow>
          (Inl (''error searching for user \"'' @ username @ ''\": '' @ err), st1)
      | (Inr entries, st1) \<Rightarrow>
          if length entries = 0 then (Inr ([], []), st1)
          else if length entries > 1 then
            (Inl (''searching for user \"'' @ username @ ''\" resulted in ''
                    @ Itoa (length entries) @ '' search results, but expected 1 result''), st1)
          else
            let userEntry = entries ! 0 in
            if length (DN userEntry) = 0 then
              (Inl (''searching for user \"'' @ username
                      @ ''\" resulted in search result without DN''), st1)
            else
              (case getSearchResultAttributeValue p (UsernameAttribute (UserSearch (c p)))
                      userEntry username of
                 Inl err \<Rightarrow> (Inl err, st1)
               | Inr mappedUsername \<Rightarrow>
              (case getSearchResultAttributeValue p (UIDAttribute (UserSearch (c p)))
                      userEntry username of
                 Inl err \<Rightarrow> (Inl err, st1)
               | Inr mappedUID \<Rightarrow>
              (case bindFunc conn (DN userEntry) st1 of
                 (Some err, st2) \<Rightarrow>
                   if HasPrefix err invalidCredentialsErrorPrefix then (Inr ([], []), st2)
                   else
                     (Inl (''error binding for user \"'' @ username
                             @ ''\" using provided password against DN \"'' @ DN userEntry
                             @ ''\": '' @ err), st2)
               | (None, st2) \<Rightarrow> (Inr (mappedUsername, mappedUID), st2)))))"

text \<open>
  The three values returned are the response (\<open>None\<close> for \<open>nil\<close>), whether the user
  is authenticated, and the error (\<open>None\<close> for \<open>nil\<close>). The deferred \<open>Close\<close> runs on
  every return after the dial.
\<close>

definition authenticateUserImpl ::
  "('w, 'ctx) tls \<Rightarrow> heap \<Rightarrow> ('w, 'ctx) Provider \<Rightarrow> 'ctx \<Rightarrow> string \<Rightarrow> 'w bindFunc \<Rightarrow> 'w io
     \<Rightarrow> (Response option \<times> bool \<times> string option) \<times> 'w io"
where
  "authenticateUserImpl sys h p ctx username bindFunc st =
     (case validateConfig p of
        Some err \<Rightarrow> ((None, False, Some err), st)
      | None \<Rightarrow>
     (if length username = 0 then ((None, False, None), st)
      else
     (case dial sys h p ctx st of
        (Inl err, st1) \<Rightarrow>
          ((None, False, Some (''error dialing host \"'' @ Host (c p) @ ''\": '' @ err)), st1)
      | (Inr conn, st1) \<Rightarrow>
     (case callBind conn (BindUsername (c p)) (BindPassword (c p)) st1 of
        (Some err, st2) \<Rightarrow>
          ((None, False,
            Some (''error binding as \"'' @ BindUsername (c p) @ ''\" before user search: ''
                    @ err)),
           callClose conn st2)
      | (None, st2) \<Rightarrow>
     (case searchAndBindUser p conn username bindFunc st2 of
        (Inl err, st3) \<Rightarrow> ((None, False, Some err), callClose conn st3)
      | (Inr (mappedUsername, mappedUID), st3) \<Rightarrow>
          if length mappedUsername = 0 \<or> length mappedUID = 0 then
            ((None, False, None), callClose conn st3)
          else
            ((Some \<lparr>User = \<lparr>Name = mappedUsername, UID = mappedUID, Groups = []\<rparr>\<rparr>,
              True, None),
             callClose conn st3))))))"

definition DryRunAuthenticateUser ::
  "('w, 'ctx) tls \<Rightarrow> heap \<Rightarrow> ('w, 'ctx) Provider \<Rightarrow> 'ctx \<Rightarrow> string \<Rightarrow> 'w io
     \<Rightarrow> (Response option \<times> bool \<times> string option) \<times> 'w io"
where
  "DryRunAuthenticateUser sys h p ctx username st =
     (let endUserBindFunc = (\<lambda>conn foundUserDN st. (None, st))
      in authenticateUserImpl sys h p ctx username endUserBindFunc st)"

definition AuthenticateUser ::
  "('w, 'ctx) tls \<Rightarrow> heap \<Rightarrow> ('w, 'ctx) Provider \<Rightarrow> 'ctx \<Rightarrow> string \<Rightarrow> string \<Rightarrow> 'w io
     \<Rightarrow> (Response option \<times> bool \<times> string option) \<times> 'w io"
where
  "AuthenticateUser sys h p ctx username password st =
     (let endUserBindFunc = (\<lambda>conn foundUserDN. callBind conn foundUserDN password)
      in authenticateUserImpl sys h p ctx username endUserBindFunc st)"

section \<open>The statements of the specification\<close>

text \<open>
  The audience reservation policy and the conditions of the parameter validation, in
  the words of the specification: the value of a parameter is the one \<open>Get\<close> returns.
\<close>

definition audienceReserved :: "string \<Rightarrow> bool" where
  "audienceReserved aud = (Contains aud ''.pinniped.dev'' \<or> aud = ClientIDPinnipedCLI)"

definition paramsInvalid :: "Values \<Rightarrow> bool" where
  "paramsInvalid params =
     (Get params ''audience'' = []
      \<or> Get params ''subject_token'' = []
      \<or> Get params ''subject_token_type'' \<noteq> ''urn:ietf:params:oauth:token-type:access_token''
      \<or> Get params ''requested_token_type'' \<noteq> ''urn:ietf:params:oauth:token-type:jwt''
      \<or> Get params ''resource'' \<noteq> []
      \<or> Get params ''scope'' \<noteq> []
      \<or> Get params ''actor_token'' \<noteq> []
      \<or> Get params ''actor_token_type'' \<noteq> []
      \<or> audienceReserved (Get params ''audience''))"

definition offendingParam :: "Values \<Rightarrow> string" where
  "offendingParam params =
     (if Get params ''audience'' = [] then ''audience''
      else if Get params ''subject_token'' = [] then ''subject_token''
      else if Get params ''subject_token_type'' \<noteq> ''urn:ietf:params:oauth:token-type:access_token''
        then ''subject_token_type''
      else if Get params ''requested_token_type'' \<noteq> ''urn:ietf:params:oauth:token-type:jwt''
        then ''requested_token_type''
      else if Get params ''resource'' \<noteq> [] then ''resource''
      else if Get params ''scope'' \<noteq> [] then ''scope''
      else if Get params ''actor_token'' \<noteq> [] then ''actor_token''
      else if Get params ''actor_token_type'' \<noteq> [] then ''actor_token_type''
      else ''audience'')"

definition otherParamsValid :: "Values \<Rightarrow> bool" where
  "otherParamsValid params =
     (Get params ''subject_token'' \<noteq> []
      \<and> Get params ''subject_token_type'' = ''urn:ietf:params:oauth:token-type:access_token''
      \<and> Get params ''requested_token_type'' = ''urn:ietf:params:oauth:token-type:jwt''
      \<and> Get params ''resource'' = []
      \<and> Get params ''scope'' = []
      \<and> Get params ''actor_token'' = []
      \<and> Get params ''actor_token_type'' = [])"

text \<open>
  The error of a configuration that names \<open>dn\<close> as the username attribute and gives
  no filter, and the three values returned for a user who is not authenticated.
\<close>

definition configError :: string where
  "configError = ''must specify UserSearch Filter when UserSearch UsernameAttribute is \"dn\"''"

definition unauthenticated :: "Response option \<times> bool \<times> string option" where
  "unauthenticated = (None, False, None)"

text \<open>
  A host name or a port is a non-empty string in which no colon and no square bracket
  occurs; an IPv6 literal holds a colon and no square bracket.
\<close>

definition plain :: "string \<Rightarrow> bool" where
  "plain s = (s \<noteq> [] \<and> CHR '':'' \<notin> set s \<and> CHR ''['' \<notin> set s \<and> CHR '']'' \<notin> set s)"

definition literalIPv6 :: "string \<Rightarrow> bool" where
  "literalIPv6 a = (CHR '':'' \<in> set a \<and> CHR ''['' \<notin> set a \<and> CHR '']'' \<notin> set a)"

text \<open>
  The filter of the specification: the pieces of the configured filter between the
  occurrences of the marker are joined again with the escaped username between them
  (\<open>joinWith\<close> is \<open>strings.Join\<close>), and the result is put in parentheses unless it
  begins with \<open>(\<close> and ends with \<open>)\<close>. \<open>splitMarker\<close> cuts a string at the
  occurrences of the marker, from the left.
\<close>

fun joinWith :: "string \<Rightarrow> string list \<Rightarrow> string" where
  "joinWith sep [] = []"
| "joinWith sep [x] = x"
| "joinWith sep (x # y # rest) = x @ sep @ joinWith sep (y # rest)"

definition wrapParens :: "string \<Rightarrow> string" where
  "wrapParens s =
     (if s \<noteq> [] \<and> hd s = CHR ''('' \<and> last s = CHR '')'' then s else ''('' @ s @ '')'')"

fun splitMarker :: "string \<Rightarrow> string list" where
  "splitMarker [] = [[]]"
| "splitMarker [x] = [[x]]"
| "splitMarker (x # y # s) =
     (if x = CHR ''{'' \<and> y = CHR ''}'' then [] # splitMarker s
      else (case splitMarker (y # s) of
              [] \<Rightarrow> [[x]]
            | piece # pieces \<Rightarrow> (x # piece) # pieces))"

section \<open>Example inputs\<close>

text \<open>
  The token exchange of the specification's scenario: the form asks for the audience
  \<open>cluster-a\<close> with the subject token \<open>T\<close>, which the storage resolves to an original
  request of the same client, with a session of the user \<open>alice\<close>.
\<close>

definition exForm :: Values where
  "exForm = (\<lambda>_. [])(''audience'' := [''cluster-a''], ''subject_token'' := [''T''],
     ''subject_token_type'' := [''urn:ietf:params:oauth:token-type:access_token''],
     ''requested_token_type'' := [''urn:ietf:params:oauth:token-type:jwt''])"

definition exSession :: Session where
  "exSession = PinnipedSession ((\<lambda>_. None)(''username'' \<mapsto> StringClaim ''alice''))"

definition exOriginal :: "string list \<Rightarrow> Request" where
  "exOriginal scopes =
     \<lparr>Client = \<lparr>ID = ''my-client'', ClientGrantTypes = [GrantTypeTokenExchange]\<rparr>,
      GrantTypes = [''authorization_code''], GrantedScope = scopes,
      Form = (\<lambda>_. []), Session = exSession\<rparr>"

definition exRequest :: "Values \<Rightarrow> Request" where
  "exRequest form =
     \<lparr>Client = \<lparr>ID = ''my-client'', ClientGrantTypes = [GrantTypeTokenExchange]\<rparr>,
      GrantTypes = [GrantTypeTokenExchange], GrantedScope = [],
      Form = form, Session = OtherSession\<rparr>"

definition exHandler :: "string list \<Rightarrow> (nat, unit) TokenExchangeHandler" where
  "exHandler scopes =
     \<lparr>GenerateIDToken = (\<lambda>r s. (Inr (''jwt for '' @ ID (Client r)), Suc s)),
      AccessTokenSignature = (\<lambda>token. token),
      ValidateAccessToken = (\<lambda>r token s. (None, s)),
      GetAccessTokenSession =
        (\<lambda>signature session s.
           if signature = ''T'' then (Inr (exOriginal scopes), s) else (Inl (Foreign ()), s))\<rparr>"

text \<open>
  The membership test of the examples is the exact one; on the scopes and grant
  types used here, all in lower case, a test that ignores the case gives the same.
\<close>

definition exHas :: "string list \<Rightarrow> string \<Rightarrow> bool" where
  "exHas r item = (item \<in> set r)"

definition exResponder :: Responder where
  "exResponder = \<lparr>AccessToken = [], TokenType = [], Extra = Map.empty\<rparr>"

text \<open>
  The directory of the specification's scenarios: \<open>alice\<close> has one entry and the
  password \<open>pw\<close>, \<open>bob\<close> has two entries, nobody else is known. The world counts
  the calls that reached the directory.
\<close>

definition exAlice :: Entry where
  "exAlice =
     \<lparr>DN = ''cn=alice,ou=users,dc=x'',
      Entry.Attributes =
        [\<lparr>EntryAttribute.Name = ''cn'', Values = [''alice'']\<rparr>,
         \<lparr>EntryAttribute.Name = ''uid'', Values = [''1001'']\<rparr>]\<rparr>"

definition exBob :: "string \<Rightarrow> Entry" where
  "exBob ou =
     \<lparr>DN = ''cn=bob,ou='' @ ou @ '',dc=x'',
      Entry.Attributes =
        [\<lparr>EntryAttribute.Name = ''cn'', Values = [''bob'']\<rparr>,
         \<lparr>EntryAttribute.Name = ''uid'', Values = [''1002'']\<rparr>]\<rparr>"

definition exConn :: "nat Conn" where
  "exConn =
     \<lparr>Bind = (\<lambda>username password w.
         (if (username = ''cn=admin'' \<and> password = ''secret'')
              \<or> (username = ''cn=alice,ou=users,dc=x'' \<and> password = ''pw'')
          then None
          else Some ''LDAP Result Code 49 \"Invalid Credentials\": '', Suc w)),
      Search = (\<lambda>searchRequest w.
         (if SearchRequest.Filter searchRequest = ''(cn=alice)'' then Inr [exAlice]
          else if SearchRequest.Filter searchRequest = ''(cn=bob)''
            then Inr [exBob ''users'', exBob ''staff'']
          else Inr [], Suc w)),
      Close = Suc\<rparr>"

definition exDialer :: "(nat, unit) LDAPDialer" where
  "exDialer ctx hostAndPort w =
     (if hostAndPort = ''ldap.example.com:636'' then Inr exConn else Inl ''no such host'', Suc w)"

definition exConfig :: "string \<Rightarrow> string \<Rightarrow> (nat, unit) ProviderConfig" where
  "exConfig attribute searchFilter =
     \<lparr>ProviderConfig.Name = ''ldap'', Host = ''ldap.example.com'', CABundle = NilSlice,
      BindUsername = ''cn=admin'', BindPassword = ''secret'',
      UserSearch = \<lparr>Base = ''ou=users,dc=x'', UserSearchConfig.Filter = searchFilter,
                    UsernameAttribute = attribute, UIDAttribute = ''uid''\<rparr>,
      Dialer = Some exDialer\<rparr>"

text \<open>
  The default dialer of the examples finds no certificate in a bundle, as none of
  the bundles here holds one, and reaches the same directory. The heap holds one
  backing array, of two hyphens, which is the CA bundle of the provider that has no
  dialer of its own.
\<close>

definition exTls :: "(nat, unit) tls" where
  "exTls =
     \<lparr>AppendCertsFromPEM = (\<lambda>pem. False),
      DialContext = (\<lambda>ctx rootCAs. exDialer ctx)\<rparr>"

definition exHeap :: heap where
  "exHeap = (\<lambda>_. [])(0 := [0x2D, 0x2D])"

definition exTlsProvider :: "(nat, unit) Provider" where
  "exTlsProvider = New ((exConfig ''cn'' [])\<lparr>CABundle := Slice 0 0 2, Dialer := None\<rparr>)"

section \<open>Substrings\<close>

lemma HasPrefix_iff: "HasPrefix s p \<longleftrightarrow> (\<exists>ys. s = p @ ys)"
  unfolding HasPrefix_def
  by (metis append_eq_conv_conj append_take_drop_id length_append le_add1)

lemma Contains_iff: "Contains s sub \<longleftrightarrow> (\<exists>xs ys. s = xs @ sub @ ys)"
proof (induction s)
  case Nil
  show ?case by auto
next
  case (Cons x s)
  show ?case
  proof
    assume "Contains (x # s) sub"
    then consider "HasPrefix (x # s) sub" | "Contains s sub" by auto
    then show "\<exists>xs ys. x # s = xs @ sub @ ys"
    proof cases
      case 1
      then obtain ys where "x # s = sub @ ys" by (auto simp: HasPrefix_iff)
      then have "x # s = [] @ sub @ ys" by simp
      then show ?thesis by blast
    next
      case 2
      then obtain xs ys where "s = xs @ sub @ ys" using Cons.IH by auto
      then have "x # s = (x # xs) @ sub @ ys" by simp
      then show ?thesis by blast
    qed
  next
    assume "\<exists>xs ys. x # s = xs @ sub @ ys"
    then obtain xs ys where e: "x # s = xs @ sub @ ys" by blast
    show "Contains (x # s) sub"
    proof (cases xs)
      case Nil
      then have "HasPrefix (x # s) sub" using e by (auto simp: HasPrefix_iff)
      then show ?thesis by simp
    next
      case (Cons y xs')
      then have "s = xs' @ sub @ ys" using e by simp
      then have "Contains s sub" using Cons.IH by blast
      then show ?thesis by simp
    qed
  qed
qed

lemma Contains_mid: "Contains (xs @ sub @ ys) sub"
  unfolding Contains_iff by blast

lemma unsupportedParam_unfold:
  "unsupportedParam params unsupportedParams =
     (if Get params ''resource'' \<noteq> [] then Some ''resource''
      else if Get params ''scope'' \<noteq> [] then Some ''scope''
      else if Get params ''actor_token'' \<noteq> [] then Some ''actor_token''
      else if Get params ''actor_token_type'' \<noteq> [] then Some ''actor_token_type''
      else None)"
  by (simp add: unsupportedParams_def)

section \<open>Parameter validation\<close>

lemma validateParams_invalid:
  assumes "paramsInvalid params"
  shows "\<exists>hint. (validateParams params :: 'e error + stsParams) = Inl (WithHint ErrInvalidRequest hint)
            \<and> Contains hint (offendingParam params)"
proof -
  have a: "Contains ''Missing 'audience' parameter.'' ''audience''"
    using Contains_mid [of "''Missing '' @ [CHR 0x27]" "''audience''" "CHR 0x27 # '' parameter.''"] by simp
  have b: "Contains ''Missing 'subject_token' parameter.'' ''subject_token''"
    using Contains_mid [of "''Missing '' @ [CHR 0x27]" "''subject_token''" "CHR 0x27 # '' parameter.''"] by simp
  have c1: "Contains (''Unsupported 'subject_token_type' parameter value, must be '' @ z) ''subject_token_type''" for z
    using Contains_mid [of "''Unsupported '' @ [CHR 0x27]" "''subject_token_type''" "CHR 0x27 # '' parameter value, must be '' @ z"] by simp
  have d: "Contains (''Unsupported 'requested_token_type' parameter value, must be '' @ z) ''requested_token_type''" for z
    using Contains_mid [of "''Unsupported '' @ [CHR 0x27]" "''requested_token_type''" "CHR 0x27 # '' parameter value, must be '' @ z"] by simp
  have e: "Contains (''Unsupported parameter '' @ quoted q @ ''.'') q" for q
    using Contains_mid [of "''Unsupported parameter \"''" q "''\".''"] by (simp add: quoted_def)
  have f: "Contains (''requested audience cannot '' @ z) ''audience''" for z
    using Contains_mid [of "''requested ''" "''audience''" "'' cannot '' @ z"] by simp
  note defs = validateParams_def offendingParam_def Let_def unsupportedParam_unfold
    tokenTypeAccessToken_def tokenTypeJWT_def WithHint_def
  consider (1) "Get params ''audience'' = []"
    | (2) "Get params ''audience'' \<noteq> []" "Get params ''subject_token'' = []"
    | (3) "Get params ''audience'' \<noteq> []" "Get params ''subject_token'' \<noteq> []"
          "Get params ''subject_token_type'' \<noteq> ''urn:ietf:params:oauth:token-type:access_token''"
    | (4) "Get params ''audience'' \<noteq> []" "Get params ''subject_token'' \<noteq> []"
          "Get params ''subject_token_type'' = ''urn:ietf:params:oauth:token-type:access_token''"
          "Get params ''requested_token_type'' \<noteq> ''urn:ietf:params:oauth:token-type:jwt''"
    | (5) "Get params ''audience'' \<noteq> []" "Get params ''subject_token'' \<noteq> []"
          "Get params ''subject_token_type'' = ''urn:ietf:params:oauth:token-type:access_token''"
          "Get params ''requested_token_type'' = ''urn:ietf:params:oauth:token-type:jwt''"
          "Get params ''resource'' \<noteq> []"
    | (6) "Get params ''audience'' \<noteq> []" "Get params ''subject_token'' \<noteq> []"
          "Get params ''subject_token_type'' = ''urn:ietf:params:oauth:token-type:access_token''"
          "Get params ''requested_token_type'' = ''urn:ietf:params:oauth:token-type:jwt''"
          "Get params ''resource'' = []" "Get params ''scope'' \<noteq> []"
    | (7) "Get params ''audience'' \<noteq> []" "Get params ''subject_token'' \<noteq> []"
          "Get params ''subject_token_type'' = ''urn:ietf:params:oauth:token-type:access_token''"
          "Get params ''requested_token_type'' = ''urn:ietf:params:oauth:token-type:jwt''"
          "Get params ''resource'' = []" "Get params ''scope'' = []"
          "Get params ''actor_token'' \<noteq> []"
    | (8) "Get params ''audience'' \<noteq> []" "Get params ''subject_token'' \<noteq> []"
          "Get params ''subject_token_type'' = ''urn:ietf:params:oauth:token-type:access_token''"
          "Get params ''requested_token_type'' = ''urn:ietf:params:oauth:token-type:jwt''"
          "Get params ''resource'' = []" "Get params ''scope'' = []"
          "Get params ''actor_token'' = []" "Get params ''actor_token_type'' \<noteq> []"
    | (9) "Get params ''audience'' \<noteq> []" "Get params ''subject_token'' \<noteq> []"
          "Get params ''subject_token_type'' = ''urn:ietf:params:oauth:token-type:access_token''"
          "Get params ''requested_token_type'' = ''urn:ietf:params:oauth:token-type:jwt''"
          "Get params ''resource'' = []" "Get params ''scope'' = []"
          "Get params ''actor_token'' = []" "Get params ''actor_token_type'' = []"
          "audienceReserved (Get params ''audience'')"
    using assms unfolding paramsInvalid_def by blast
  then show ?thesis
  proof cases
    case 1 then show ?thesis using a by (simp add: defs del: Contains.simps)
  next
    case 2 then show ?thesis using b by (simp add: defs del: Contains.simps)
  next
    case 3 then show ?thesis using c1 by (simp add: defs del: Contains.simps)
  next
    case 4 then show ?thesis using d by (simp add: defs del: Contains.simps)
  next
    case 5 then show ?thesis using e [of "''resource''"] by (simp add: defs del: Contains.simps)
  next
    case 6 then show ?thesis using e [of "''scope''"] by (simp add: defs del: Contains.simps)
  next
    case 7 then show ?thesis using e [of "''actor_token''"] by (simp add: defs del: Contains.simps)
  next
    case 8 then show ?thesis using e [of "''actor_token_type''"] by (simp add: defs del: Contains.simps)
  next
    case 9 then show ?thesis using f unfolding audienceReserved_def
      by (auto simp add: defs simp del: Contains.simps)
  qed
qed

lemma validateParams_valid:
  assumes "\<not> paramsInvalid params"
  shows "(validateParams params :: 'e error + stsParams) =
     Inr \<lparr>subjectAccessToken = Get params ''subject_token'', requestedAudience = Get params ''audience''\<rparr>"
  using assms
  by (simp add: validateParams_def paramsInvalid_def Let_def
        unsupportedParam_unfold audienceReserved_def tokenTypeAccessToken_def tokenTypeJWT_def
        del: Contains.simps)

text \<open>
  C3. \<open>validateParams\<close> fails exactly when the audience or the subject token is empty,
  one of the two token types is not the supported one, one of \<open>resource\<close>, \<open>scope\<close>,
  \<open>actor_token\<close>, \<open>actor_token_type\<close> has a non-empty value, or the audience is
  reserved; the value of a parameter is the one \<open>Get\<close> returns, the first that the
  form holds for it. The failure is an invalid-request error whose hint holds the
  name of the offending parameter; otherwise the audience and the subject token are
  returned.
\<close>

theorem validateParams_fails_iff:
  "(paramsInvalid params \<longrightarrow>
      (\<exists>hint. (validateParams params :: 'e error + stsParams) = Inl (WithHint ErrInvalidRequest hint)
         \<and> Contains hint (offendingParam params)))
   \<and> (\<not> paramsInvalid params \<longrightarrow>
      (validateParams params :: 'e error + stsParams) =
        Inr \<lparr>subjectAccessToken = Get params ''subject_token'',
             requestedAudience = Get params ''audience''\<rparr>)"
  using validateParams_invalid [of params] validateParams_valid [of params] by blast

lemma exForm_valid:
  "(validateParams exForm :: unit error + stsParams) = Inr \<lparr>subjectAccessToken = ''T'', requestedAudience = ''cluster-a''\<rparr>"
  by (simp add: validateParams_def exForm_def Get_def Let_def unsupportedParams_def
      tokenTypeAccessToken_def tokenTypeJWT_def ClientIDPinnipedCLI_def HasPrefix_def)

lemma exRequest_gate: "(HandleTokenEndpointRequest (exRequest form) :: unit error option) = None"
  by (simp add: HandleTokenEndpointRequest_def CanHandleTokenEndpointRequest_def ExactOne_def exRequest_def)

lemma ex_validateAccessToken:
  "validateAccessToken (exHandler scopes) (exRequest exForm) ''T'' s = (Inr (exOriginal scopes), s)"
  by (simp add: validateAccessToken_def exHandler_def)

lemma exForm_Get:
  "Get exForm ''audience'' = ''cluster-a''"
  "Get exForm ''subject_token'' = ''T''"
  "Get exForm ''subject_token_type'' = ''urn:ietf:params:oauth:token-type:access_token''"
  "Get exForm ''requested_token_type'' = ''urn:ietf:params:oauth:token-type:jwt''"
  "Get exForm ''resource'' = []"
  "Get exForm ''scope'' = []"
  "Get exForm ''actor_token'' = []"
  "Get exForm ''actor_token_type'' = []"
  by (simp_all add: exForm_def Get_def)

lemma Get_audience_upd:
  "Get (f(''audience'' := [a])) ''audience'' = a"
  "Get (f(''audience'' := [a])) ''subject_token'' = Get f ''subject_token''"
  "Get (f(''audience'' := [a])) ''subject_token_type'' = Get f ''subject_token_type''"
  "Get (f(''audience'' := [a])) ''requested_token_type'' = Get f ''requested_token_type''"
  "Get (f(''audience'' := [a])) ''resource'' = Get f ''resource''"
  "Get (f(''audience'' := [a])) ''scope'' = Get f ''scope''"
  "Get (f(''audience'' := [a])) ''actor_token'' = Get f ''actor_token''"
  "Get (f(''audience'' := [a])) ''actor_token_type'' = Get f ''actor_token_type''"
  by (simp_all add: Get_def)

theorem validateParams_fails_iff_witness:
  "paramsInvalid (exForm(''scope'' := [''openid'']))
   \<and> (\<exists>hint. (validateParams (exForm(''scope'' := [''openid''])) :: unit error + stsParams)
                = Inl (WithHint ErrInvalidRequest hint) \<and> Contains hint ''scope'')
   \<and> \<not> paramsInvalid exForm
   \<and> (validateParams exForm :: unit error + stsParams)
        = Inr \<lparr>subjectAccessToken = ''T'', requestedAudience = ''cluster-a''\<rparr>"
proof -
  have bad: "paramsInvalid (exForm(''scope'' := [''openid'']))"
    by (simp add: paramsInvalid_def Get_def)
  have off: "offendingParam (exForm(''scope'' := [''openid''])) = ''scope''"
    by (simp add: offendingParam_def Get_def exForm_def)
  have good: "\<not> paramsInvalid exForm"
    by (simp add: paramsInvalid_def exForm_Get audienceReserved_def ClientIDPinnipedCLI_def
        HasPrefix_def)
  show ?thesis
    using validateParams_fails_iff [of "exForm(''scope'' := [''openid''])", where 'e = unit]
      validateParams_fails_iff [of exForm, where 'e = unit] bad off good
    by (simp add: exForm_Get)
qed

text \<open>
  C2. An audience in which \<open>.pinniped.dev\<close> occurs, byte for byte and at any offset,
  or which is the reserved CLI client identifier, is rejected with an invalid-request
  error, whatever the other parameters are. Every other non-empty audience is
  accepted: with the other parameters valid, the validation succeeds and returns it.
\<close>

theorem audience_reservation:
  "((\<exists>pre post. Get params ''audience'' = pre @ ''.pinniped.dev'' @ post)
      \<or> Get params ''audience'' = ClientIDPinnipedCLI \<longrightarrow>
      (\<exists>hint. (validateParams params :: 'e error + stsParams)
                 = Inl (WithHint ErrInvalidRequest hint)))
   \<and> (Get params ''audience'' \<noteq> []
        \<and> \<not> (\<exists>pre post. Get params ''audience'' = pre @ ''.pinniped.dev'' @ post)
        \<and> Get params ''audience'' \<noteq> ClientIDPinnipedCLI
        \<and> otherParamsValid params \<longrightarrow>
      (validateParams params :: 'e error + stsParams) =
        Inr \<lparr>subjectAccessToken = Get params ''subject_token'',
             requestedAudience = Get params ''audience''\<rparr>)"
proof (intro conjI impI)
  assume "(\<exists>pre post. Get params ''audience'' = pre @ ''.pinniped.dev'' @ post)
      \<or> Get params ''audience'' = ClientIDPinnipedCLI"
  then have "audienceReserved (Get params ''audience'')"
    unfolding audienceReserved_def Contains_iff by blast
  then have "paramsInvalid params"
    by (simp add: paramsInvalid_def)
  then show "\<exists>hint. (validateParams params :: 'e error + stsParams)
                 = Inl (WithHint ErrInvalidRequest hint)"
    using validateParams_invalid [of params, where 'e = 'e] by blast
next
  assume a: "Get params ''audience'' \<noteq> []
        \<and> \<not> (\<exists>pre post. Get params ''audience'' = pre @ ''.pinniped.dev'' @ post)
        \<and> Get params ''audience'' \<noteq> ClientIDPinnipedCLI
        \<and> otherParamsValid params"
  then have "\<not> audienceReserved (Get params ''audience'')"
    unfolding audienceReserved_def Contains_iff by blast
  then have "\<not> paramsInvalid params"
    using a by (simp add: paramsInvalid_def otherParamsValid_def)
  then show "(validateParams params :: 'e error + stsParams) =
        Inr \<lparr>subjectAccessToken = Get params ''subject_token'',
             requestedAudience = Get params ''audience''\<rparr>"
    by (rule validateParams_valid)
qed

theorem audience_reservation_witness:
  "(\<exists>hint. (validateParams (exForm(''audience'' := [''foo.pinniped.dev/x''])) :: unit error + stsParams)
      = Inl (WithHint ErrInvalidRequest hint))
   \<and> (\<exists>hint. (validateParams (exForm(''audience'' := [''pinniped-cli''])) :: unit error + stsParams)
      = Inl (WithHint ErrInvalidRequest hint))
   \<and> (validateParams (exForm(''audience'' := [''cluster.PINNIPED.DEV''])) :: unit error + stsParams)
      = Inr \<lparr>subjectAccessToken = ''T'', requestedAudience = ''cluster.PINNIPED.DEV''\<rparr>"
proof -
  have r1: "\<exists>pre post. ''foo.pinniped.dev/x'' = pre @ ''.pinniped.dev'' @ post"
    unfolding Contains_iff [symmetric] by (simp add: HasPrefix_def)
  have r3: "\<not> (\<exists>pre post. ''cluster.PINNIPED.DEV'' = pre @ ''.pinniped.dev'' @ post)"
    unfolding Contains_iff [symmetric] by (simp add: HasPrefix_def)
  have ok: "otherParamsValid (exForm(''audience'' := [a]))" for a
    by (simp add: otherParamsValid_def Get_audience_upd exForm_Get)
  show ?thesis
    using audience_reservation [of "exForm(''audience'' := [''foo.pinniped.dev/x''])", where 'e = unit]
      audience_reservation [of "exForm(''audience'' := [''pinniped-cli''])", where 'e = unit]
      audience_reservation [of "exForm(''audience'' := [''cluster.PINNIPED.DEV''])", where 'e = unit]
      r1 r3 ok
    by (simp add: Get_audience_upd exForm_Get ClientIDPinnipedCLI_def)
qed

section \<open>The token exchange handler\<close>

text \<open>
  C1. When the request passes the gate, the parameter validation, the validation of the
  subject token, the client continuity, the grant-type, the scope and the session
  checks, the ID-token strategy is called on a fresh access request that carries the
  session of the original request and whose client ID is the requested audience. The
  JWT it returns becomes the access token of the response, with the token type
  \<open>N_A\<close> and the extra field \<open>issued_token_type\<close> set to the URN of the JWT token
  type; an error of the strategy is returned with the responder as it was.
\<close>

theorem populate_success:
  assumes "HandleTokenEndpointRequest requester = (None :: 'e error option)"
    and "validateParams (Form requester) = (Inr params :: 'e error + stsParams)"
    and "validateAccessToken (t :: ('s, 'e) TokenExchangeHandler) requester (subjectAccessToken params) s
           = (Inr originalRequester, s1)"
    and "ID (Client originalRequester) = ID (Client requester)"
    and "Has (ClientGrantTypes (Client requester)) GrantTypeTokenExchange"
    and "Has (GrantedScope originalRequester) ScopeRequestAudience"
    and "Has (GrantedScope originalRequester) ScopeOpenID"
    and "validateSession originalRequester = (None :: 'e error option)"
  shows "PopulateTokenEndpointResponse t Has requester responder s =
     (case GenerateIDToken t
             ((NewAccessRequest (Session originalRequester))
                \<lparr>Client := \<lparr>ID = Get (Form requester) ''audience'', ClientGrantTypes = []\<rparr>\<rparr>) s1 of
        (Inl err, s2) \<Rightarrow> (Some err, responder, s2)
      | (Inr jwt, s2) \<Rightarrow>
          (None,
           responder\<lparr>AccessToken := jwt, TokenType := ''N_A'',
             Extra := (Extra responder)(''issued_token_type'' \<mapsto> ''urn:ietf:params:oauth:token-type:jwt'')\<rparr>,
           s2))"
proof -
  have aud: "requestedAudience params = Get (Form requester) ''audience''"
    using assms(2)
    by (auto simp: validateParams_def Let_def split: if_splits option.splits)
  have req: "downscopedRequest originalRequester (requestedAudience params) =
      (NewAccessRequest (Session originalRequester))
                \<lparr>Client := \<lparr>ID = Get (Form requester) ''audience'', ClientGrantTypes = []\<rparr>\<rparr>"
    by (simp add: downscopedRequest_def NewAccessRequest_def aud)
  have sets: "SetExtra ''issued_token_type'' tokenTypeJWT
                 (SetTokenType ''N_A'' (SetAccessToken jwt responder)) =
      responder\<lparr>AccessToken := jwt, TokenType := ''N_A'',
        Extra := (Extra responder)(''issued_token_type'' \<mapsto> ''urn:ietf:params:oauth:token-type:jwt'')\<rparr>" for jwt
    by (simp add: SetExtra_def SetTokenType_def SetAccessToken_def tokenTypeJWT_def)
  have "PopulateTokenEndpointResponse t Has requester responder s =
     (case mintJWT t originalRequester (requestedAudience params) s1 of
        (Inl err, s2) \<Rightarrow> (Some err, responder, s2)
      | (Inr responseToken, s2) \<Rightarrow>
          (None, SetExtra ''issued_token_type'' tokenTypeJWT
                    (SetTokenType ''N_A'' (SetAccessToken responseToken responder)), s2))"
    unfolding PopulateTokenEndpointResponse_def using assms by simp
  then show ?thesis
    by (simp add: mintJWT_def req sets split: prod.splits sum.splits)
qed

theorem populate_success_witness:
  "PopulateTokenEndpointResponse (exHandler [''openid'', ''pinniped:request-audience'', ''username''])
      exHas (exRequest exForm) exResponder 0 =
     (None, exResponder\<lparr>AccessToken := ''jwt for cluster-a'', TokenType := ''N_A'',
             Extra := (Extra exResponder)(''issued_token_type'' \<mapsto> ''urn:ietf:params:oauth:token-type:jwt'')\<rparr>, 1)"
  using populate_success [of "exRequest exForm" "\<lparr>subjectAccessToken = ''T'', requestedAudience = ''cluster-a''\<rparr>"
      "exHandler [''openid'', ''pinniped:request-audience'', ''username'']" 0
      "exOriginal [''openid'', ''pinniped:request-audience'', ''username'']" 0 exHas exResponder]
    exForm_valid exRequest_gate [of exForm] ex_validateAccessToken [of "[''openid'', ''pinniped:request-audience'', ''username'']" 0]
  by (simp add: exRequest_def exOriginal_def exHas_def GrantTypeTokenExchange_def ScopeRequestAudience_def
      ScopeOpenID_def validateSession_def exSession_def IDTokenClaimUsername_def exHandler_def
      NewAccessRequest_def exForm_def Get_def)

text \<open>
  C4. After the parameter validation, the resolution of the subject token, the client
  continuity and the grant-type permission: without the request-audience scope on the
  original grant the handler returns access-denied naming that scope; else without
  the OpenID scope it returns access-denied naming that one; with both it goes on to
  the session check and the minting.
\<close>

theorem scope_gating:
  assumes "HandleTokenEndpointRequest requester = (None :: 'e error option)"
    and "validateParams (Form requester) = (Inr params :: 'e error + stsParams)"
    and "validateAccessToken (t :: ('s, 'e) TokenExchangeHandler) requester (subjectAccessToken params) s
           = (Inr originalRequester, s1)"
    and "ID (Client originalRequester) = ID (Client requester)"
    and "Has (ClientGrantTypes (Client requester)) GrantTypeTokenExchange"
  shows "(\<not> Has (GrantedScope originalRequester) ScopeRequestAudience \<longrightarrow>
            PopulateTokenEndpointResponse t Has requester responder s =
              (Some (WithHint ErrAccessDenied ''Missing the \"pinniped:request-audience\" scope.''),
               responder, s1))
       \<and> (Has (GrantedScope originalRequester) ScopeRequestAudience
            \<and> \<not> Has (GrantedScope originalRequester) ScopeOpenID \<longrightarrow>
            PopulateTokenEndpointResponse t Has requester responder s =
              (Some (WithHint ErrAccessDenied ''Missing the \"openid\" scope.''), responder, s1))
       \<and> (Has (GrantedScope originalRequester) ScopeRequestAudience
            \<and> Has (GrantedScope originalRequester) ScopeOpenID \<longrightarrow>
            PopulateTokenEndpointResponse t Has requester responder s =
              (case validateSession originalRequester of
                 Some err \<Rightarrow> (Some err, responder, s1)
               | None \<Rightarrow>
                   (case mintJWT t originalRequester (requestedAudience params) s1 of
                      (Inl err, s2) \<Rightarrow> (Some err, responder, s2)
                    | (Inr responseToken, s2) \<Rightarrow>
                        (None,
                         SetExtra ''issued_token_type'' tokenTypeJWT
                           (SetTokenType ''N_A'' (SetAccessToken responseToken responder)),
                         s2))))"
  unfolding PopulateTokenEndpointResponse_def using assms
  by (simp add: quoted_def ScopeRequestAudience_def ScopeOpenID_def)

theorem scope_gating_witness:
  "PopulateTokenEndpointResponse (exHandler [''openid'', ''username'']) exHas
      (exRequest exForm) exResponder 0 =
     (Some (WithHint ErrAccessDenied ''Missing the \"pinniped:request-audience\" scope.''),
      exResponder, 0)
   \<and> PopulateTokenEndpointResponse (exHandler [''pinniped:request-audience'', ''username'']) exHas
      (exRequest exForm) exResponder 0 =
     (Some (WithHint ErrAccessDenied ''Missing the \"openid\" scope.''), exResponder, 0)"
  using
    scope_gating [of "exRequest exForm"
      "\<lparr>subjectAccessToken = ''T'', requestedAudience = ''cluster-a''\<rparr>"
      "exHandler [''openid'', ''username'']" 0 "exOriginal [''openid'', ''username'']" 0
      exHas exResponder]
    scope_gating [of "exRequest exForm"
      "\<lparr>subjectAccessToken = ''T'', requestedAudience = ''cluster-a''\<rparr>"
      "exHandler [''pinniped:request-audience'', ''username'']" 0
      "exOriginal [''pinniped:request-audience'', ''username'']" 0
      exHas exResponder]
    exForm_valid exRequest_gate [of exForm]
    ex_validateAccessToken [of "[''openid'', ''username'']" 0]
    ex_validateAccessToken [of "[''pinniped:request-audience'', ''username'']" 0]
  by (simp add: exRequest_def exOriginal_def exHas_def GrantTypeTokenExchange_def
      ScopeRequestAudience_def ScopeOpenID_def)

text \<open>
  C10. Whenever \<open>PopulateTokenEndpointResponse\<close> returns an error, whichever check or
  collaborator it comes from, the responder is the one it was given: the three setters
  have not been called.
\<close>

theorem populate_error_frame:
  "fst (PopulateTokenEndpointResponse t Has requester responder s) \<noteq> None \<longrightarrow>
     fst (snd (PopulateTokenEndpointResponse t Has requester responder s)) = responder"
  by (simp add: PopulateTokenEndpointResponse_def split: option.splits sum.splits prod.splits)

theorem populate_error_frame_witness:
  "fst (PopulateTokenEndpointResponse (exHandler []) exHas (exRequest (\<lambda>_. []))
          (exResponder\<lparr>AccessToken := ''before''\<rparr>) 0) \<noteq> None
   \<and> fst (snd (PopulateTokenEndpointResponse (exHandler []) exHas (exRequest (\<lambda>_. []))
          (exResponder\<lparr>AccessToken := ''before''\<rparr>) 0)) = exResponder\<lparr>AccessToken := ''before''\<rparr>"
proof -
  have "(validateParams (Form (exRequest (\<lambda>_. []))) :: unit error + stsParams)
          = Inl (WithHint ErrInvalidRequest ''Missing 'audience' parameter.'')"
    by (simp add: validateParams_def exRequest_def Get_def)
  then have "fst (PopulateTokenEndpointResponse (exHandler []) exHas (exRequest (\<lambda>_. []))
          (exResponder\<lparr>AccessToken := ''before''\<rparr>) 0) \<noteq> None"
    using exRequest_gate [of "\<lambda>_. []"] by (simp add: PopulateTokenEndpointResponse_def)
  then show ?thesis
    using populate_error_frame [of "exHandler []" exHas "exRequest (\<lambda>_. [])"
        "exResponder\<lparr>AccessToken := ''before''\<rparr>" 0]
    by blast
qed

section \<open>Host and port\<close>

lemma IndexByte_None_iff: "IndexByte s b = None \<longleftrightarrow> b \<notin> set s"
  by (induction s) auto

lemma IndexByte_first: "b \<notin> set xs \<Longrightarrow> IndexByte (xs @ b # ys) b = Some (length xs)"
  by (induction xs) auto

lemma LastIndexByte_None_iff: "LastIndexByte s b = None \<longleftrightarrow> b \<notin> set s"
  by (simp add: LastIndexByte_def IndexByte_None_iff)

lemma LastIndexByte_last: "b \<notin> set ys \<Longrightarrow> LastIndexByte (xs @ b # ys) b = Some (length xs)"
proof -
  assume "b \<notin> set ys"
  then have "IndexByte (rev ys @ b # rev xs) b = Some (length ys)"
    using IndexByte_first [of b "rev ys" "rev xs"] by simp
  then show ?thesis by (simp add: LastIndexByte_def)
qed

lemma SplitHostPort_no_colon:
  assumes "CHR '':'' \<notin> set h"
  shows "SplitHostPort h = Inl \<lparr>Err = missingPort, Addr = h\<rparr>"
  using assms by (simp add: SplitHostPort_def LastIndexByte_None_iff [THEN iffD2] addrErr_def)

lemma SplitHostPort_host_port:
  assumes "CHR '':'' \<notin> set h" "CHR ''['' \<notin> set h" "CHR '']'' \<notin> set h"
    and "CHR '':'' \<notin> set p" "CHR ''['' \<notin> set p" "CHR '']'' \<notin> set p"
  shows "SplitHostPort (h @ CHR '':'' # p) = Inr (h, p)"
proof -
  have i: "LastIndexByte (h @ CHR '':'' # p) (CHR '':'') = Some (length h)"
    using assms(4) by (rule LastIndexByte_last)
  have z: "(h @ CHR '':'' # p) ! 0 \<noteq> CHR ''[''"
    using assms(2) by (cases h) auto
  have nc: "IndexByte h (CHR '':'') = None"
    using assms(1) by (simp add: IndexByte_None_iff)
  have no: "IndexByte (h @ CHR '':'' # p) (CHR ''['') = None"
    using assms(2,5) by (simp add: IndexByte_None_iff)
  have ncl: "IndexByte (h @ CHR '':'' # p) (CHR '']'') = None"
    using assms(3,6) by (simp add: IndexByte_None_iff)
  show ?thesis
    by (simp add: SplitHostPort_def i z nc splitRest_def no ncl)
qed

lemma SplitHostPort_bracketed:
  assumes "CHR ''['' \<notin> set a" "CHR '']'' \<notin> set a"
  shows "SplitHostPort (CHR ''['' # a @ '']'') =
           Inl \<lparr>Err = missingPort, Addr = CHR ''['' # a @ '']''\<rparr>"
proof (cases "CHR '':'' \<in> set a")
  case False
  then have "CHR '':'' \<notin> set (CHR ''['' # a @ '']'')" by simp
  then show ?thesis by (rule SplitHostPort_no_colon)
next
  case True
  then have "LastIndexByte (CHR ''['' # a @ '']'') (CHR '':'') \<noteq> None"
    by (simp add: LastIndexByte_None_iff)
  then obtain i where i: "LastIndexByte (CHR ''['' # a @ '']'') (CHR '':'') = Some i" by blast
  have e: "IndexByte (CHR ''['' # a @ '']'') (CHR '']'') = Some (Suc (length a))"
    using IndexByte_first [of "CHR '']''" "CHR ''['' # a" "[]"] assms(2) by simp
  show ?thesis
    unfolding SplitHostPort_def i e by (simp add: addrErr_def)
qed

lemma SplitHostPort_bracketed_port:
  assumes "CHR ''['' \<notin> set a" "CHR '']'' \<notin> set a"
    and "CHR '':'' \<notin> set p" "CHR ''['' \<notin> set p" "CHR '']'' \<notin> set p"
  shows "SplitHostPort (CHR ''['' # a @ CHR '']'' # CHR '':'' # p) = Inr (a, p)"
proof -
  have i: "LastIndexByte (CHR ''['' # a @ CHR '']'' # CHR '':'' # p) (CHR '':'') = Some (length a + 2)"
    using LastIndexByte_last [of "CHR '':''" p "CHR ''['' # a @ '']''"] assms(3) by simp
  have e: "IndexByte (CHR ''['' # a @ CHR '']'' # CHR '':'' # p) (CHR '']'') = Some (Suc (length a))"
    using IndexByte_first [of "CHR '']''" "CHR ''['' # a" "CHR '':'' # p"] assms(2) by simp
  have no: "IndexByte (a @ '']:'' @ p) (CHR ''['') = None"
    using assms(1,4) by (simp add: IndexByte_None_iff)
  have ncl: "IndexByte (CHR '':'' # p) (CHR '']'') = None"
    using assms(5) by (simp add: IndexByte_None_iff)
  show ?thesis
    unfolding SplitHostPort_def i e using no ncl by (simp add: splitRest_def)
qed

lemma missing_port_suffix:
  assumes "x \<noteq> []"
  shows "HasSuffix (AddrError_Error \<lparr>Err = missingPort, Addr = x\<rparr>) '': missing port in address''"
  using assms by (simp add: AddrError_Error_def HasSuffix_def missingPort_def)

lemma HasPrefix_bracket: "HasPrefix s ''['' \<longleftrightarrow> (\<exists>t. s = CHR ''['' # t)"
  by (cases s) (auto simp: HasPrefix_def)

lemma joinHostAndPort_plain:
  assumes "CHR '':'' \<notin> set h" "CHR ''['' \<notin> set h" "p \<noteq> []"
  shows "joinHostAndPort h p = h @ CHR '':'' # p"
proof -
  have "\<not> HasPrefix h ''[''"
    using assms(2) by (auto simp: HasPrefix_bracket)
  then show ?thesis
    using assms by (simp add: joinHostAndPort_def JoinHostPort_def IndexByte_None_iff)
qed

lemma joinHostAndPort_bracketed:
  assumes "p \<noteq> []"
  shows "joinHostAndPort (CHR ''['' # a @ '']'') p = CHR ''['' # a @ '']:'' @ p"
  using assms by (simp add: joinHostAndPort_def HasPrefix_def HasSuffix_def)

lemma joinHostAndPort_literal:
  assumes "CHR '':'' \<in> set a" "CHR ''['' \<notin> set a" "p \<noteq> []"
  shows "joinHostAndPort a p = CHR ''['' # a @ '']:'' @ p"
proof -
  have "\<not> HasPrefix a ''[''"
    using assms(2) by (auto simp: HasPrefix_bracket)
  moreover have "IndexByte a (CHR '':'') \<noteq> None"
    using assms(1) by (simp add: IndexByte_None_iff)
  ultimately show ?thesis
    using assms(3) by (simp add: joinHostAndPort_def JoinHostPort_def)
qed

lemma hostAndPort_host:
  assumes "plain h" "D \<noteq> []"
  shows "hostAndPortWithDefaultPort h D = Inr (h @ CHR '':'' # D)"
  using assms
  by (simp add: hostAndPortWithDefaultPort_def plain_def SplitHostPort_no_colon
      missing_port_suffix joinHostAndPort_plain)

lemma hostAndPort_host_port:
  assumes "plain h" "plain p"
  shows "hostAndPortWithDefaultPort (h @ CHR '':'' # p) D = Inr (h @ CHR '':'' # p)"
  using assms
  by (simp add: hostAndPortWithDefaultPort_def plain_def SplitHostPort_host_port
      joinHostAndPort_plain)

lemma hostAndPort_bracketed:
  assumes "CHR ''['' \<notin> set a" "CHR '']'' \<notin> set a" "D \<noteq> []"
  shows "hostAndPortWithDefaultPort (CHR ''['' # a @ '']'') D = Inr (CHR ''['' # a @ '']:'' @ D)"
  using assms
  by (simp add: hostAndPortWithDefaultPort_def SplitHostPort_bracketed
      missing_port_suffix joinHostAndPort_bracketed)

lemma hostAndPort_bracketed_port:
  assumes "literalIPv6 a" "plain p"
  shows "hostAndPortWithDefaultPort (CHR ''['' # a @ '']:'' @ p) D = Inr (CHR ''['' # a @ '']:'' @ p)"
  using assms
  by (simp add: hostAndPortWithDefaultPort_def plain_def literalIPv6_def
      SplitHostPort_bracketed_port joinHostAndPort_literal)

text \<open>
  C8, as amended. For a host name \<open>h\<close>, a port and a default port \<open>D\<close> (each non-empty,
  without colon or square bracket) and an IPv6 literal \<open>a\<close>, the normalization of
  \<open>h\<close>, \<open>h:port\<close>, \<open>[a]\<close> and \<open>[a]:port\<close> succeeds with a string that
  \<open>net.SplitHostPort\<close> parses. An input with a port is returned as it is, the
  bracketed literal too; an input without a port gets \<open>:D\<close> appended, which for
  \<open>h\<close> is the standard join and for \<open>[a]\<close> keeps the brackets it has, as the
  standard join of \<open>a\<close> gives them.
\<close>

theorem host_port_normalization:
  assumes "plain h" and "plain port" and "plain D" and "literalIPv6 a"
  shows "hostAndPortWithDefaultPort h D = Inr (h @ '':'' @ D)
       \<and> JoinHostPort h D = h @ '':'' @ D
       \<and> SplitHostPort (h @ '':'' @ D) = Inr (h, D)
       \<and> hostAndPortWithDefaultPort (h @ '':'' @ port) D = Inr (h @ '':'' @ port)
       \<and> SplitHostPort (h @ '':'' @ port) = Inr (h, port)
       \<and> hostAndPortWithDefaultPort (''['' @ a @ '']'') D = Inr (''['' @ a @ '']:'' @ D)
       \<and> JoinHostPort a D = ''['' @ a @ '']:'' @ D
       \<and> SplitHostPort (''['' @ a @ '']:'' @ D) = Inr (a, D)
       \<and> hostAndPortWithDefaultPort (''['' @ a @ '']:'' @ port) D = Inr (''['' @ a @ '']:'' @ port)
       \<and> SplitHostPort (''['' @ a @ '']:'' @ port) = Inr (a, port)"
proof -
  have h: "CHR '':'' \<notin> set h" "CHR ''['' \<notin> set h" "CHR '']'' \<notin> set h" "h \<noteq> []"
    and p: "CHR '':'' \<notin> set port" "CHR ''['' \<notin> set port" "CHR '']'' \<notin> set port" "port \<noteq> []"
    and D: "CHR '':'' \<notin> set D" "CHR ''['' \<notin> set D" "CHR '']'' \<notin> set D" "D \<noteq> []"
    and a: "CHR '':'' \<in> set a" "CHR ''['' \<notin> set a" "CHR '']'' \<notin> set a"
    using assms by (simp_all add: plain_def literalIPv6_def)
  have 1: "hostAndPortWithDefaultPort h D = Inr (h @ '':'' @ D)"
    using hostAndPort_host [OF assms(1) D(4)] by simp
  have 2: "JoinHostPort h D = h @ '':'' @ D"
    using h(1) by (simp add: JoinHostPort_def IndexByte_None_iff)
  have 3: "SplitHostPort (h @ '':'' @ D) = Inr (h, D)"
    using SplitHostPort_host_port [OF h(1-3) D(1-3)] by simp
  have 4: "hostAndPortWithDefaultPort (h @ '':'' @ port) D = Inr (h @ '':'' @ port)"
    using hostAndPort_host_port [OF assms(1,2)] by simp
  have 5: "SplitHostPort (h @ '':'' @ port) = Inr (h, port)"
    using SplitHostPort_host_port [OF h(1-3) p(1-3)] by simp
  have 6: "hostAndPortWithDefaultPort (''['' @ a @ '']'') D = Inr (''['' @ a @ '']:'' @ D)"
    using hostAndPort_bracketed [OF a(2,3) D(4)] by simp
  have 7: "JoinHostPort a D = ''['' @ a @ '']:'' @ D"
    using a(1) by (simp add: JoinHostPort_def IndexByte_None_iff)
  have 8: "SplitHostPort (''['' @ a @ '']:'' @ D) = Inr (a, D)"
    using SplitHostPort_bracketed_port [OF a(2,3) D(1-3)] by simp
  have 9: "hostAndPortWithDefaultPort (''['' @ a @ '']:'' @ port) D = Inr (''['' @ a @ '']:'' @ port)"
    using hostAndPort_bracketed_port [OF assms(4,2)] by simp
  have 10: "SplitHostPort (''['' @ a @ '']:'' @ port) = Inr (a, port)"
    using SplitHostPort_bracketed_port [OF a(2,3) p(1-3)] by simp
  show ?thesis using 1 2 3 4 5 6 7 8 9 10 by blast
qed

theorem host_port_normalization_witness:
  "hostAndPortWithDefaultPort ''h'' ''636'' = Inr ''h:636''
   \<and> SplitHostPort ''h:636'' = Inr (''h'', ''636'')
   \<and> hostAndPortWithDefaultPort ''h:port'' ''636'' = Inr ''h:port''
   \<and> SplitHostPort ''h:port'' = Inr (''h'', ''port'')
   \<and> hostAndPortWithDefaultPort ''[::1]'' ''636'' = Inr ''[::1]:636''
   \<and> SplitHostPort ''[::1]:636'' = Inr (''::1'', ''636'')
   \<and> hostAndPortWithDefaultPort ''[::1]:port'' ''636'' = Inr ''[::1]:port''
   \<and> SplitHostPort ''[::1]:port'' = Inr (''::1'', ''port'')"
proof -
  have "plain ''h''" "plain ''port''" "plain ''636''" "literalIPv6 ''::1''"
    by (simp_all add: plain_def literalIPv6_def)
  from host_port_normalization [OF this] show ?thesis by simp
qed

text \<open>
  C8, as stated, fails for a default port that is empty or holds a colon or a square
  bracket: the result for the host \<open>h\<close> is then not parsed by the splitter.
\<close>

theorem host_port_normalization_counterexample:
  "hostAndPortWithDefaultPort ''h'' [] = Inr ''h''
   \<and> SplitHostPort ''h'' = Inl \<lparr>Err = missingPort, Addr = ''h''\<rparr>
   \<and> hostAndPortWithDefaultPort ''h'' '':'' = Inr ''h::''
   \<and> SplitHostPort ''h::'' = Inl \<lparr>Err = tooManyColons, Addr = ''h::''\<rparr>
   \<and> hostAndPortWithDefaultPort ''h'' '']'' = Inr ''h:]''
   \<and> SplitHostPort ''h:]'' = Inl \<lparr>Err = ''unexpected ']' in address'', Addr = ''h:]''\<rparr>"
proof -
  have s: "SplitHostPort ''h'' = Inl \<lparr>Err = missingPort, Addr = ''h''\<rparr>"
    by (simp add: SplitHostPort_no_colon)
  have j: "joinHostAndPort ''h'' [] = ''h''" "joinHostAndPort ''h'' '':'' = ''h::''"
    "joinHostAndPort ''h'' '']'' = ''h:]''"
    by (simp_all add: joinHostAndPort_def JoinHostPort_def HasPrefix_def)
  have 1: "hostAndPortWithDefaultPort ''h'' D = Inr (joinHostAndPort ''h'' D)" for D
    by (simp add: hostAndPortWithDefaultPort_def s missing_port_suffix)
  have 2: "SplitHostPort ''h::'' = Inl \<lparr>Err = tooManyColons, Addr = ''h::''\<rparr>"
    by (simp add: SplitHostPort_def LastIndexByte_def addrErr_def)
  have 3: "SplitHostPort ''h:]'' = Inl \<lparr>Err = ''unexpected ']' in address'', Addr = ''h:]''\<rparr>"
    by (simp add: SplitHostPort_def LastIndexByte_def addrErr_def splitRest_def)
  show ?thesis using s j 1 2 3 by simp
qed

section \<open>Search filters\<close>

lemma marker_prefix: "HasPrefix s ''{}'' \<longleftrightarrow> (\<exists>t. s = CHR ''{'' # CHR ''}'' # t)"
proof (cases s)
  case Nil
  then show ?thesis by (simp add: HasPrefix_def)
next
  case (Cons x xs)
  then show ?thesis by (cases xs) (auto simp: HasPrefix_def)
qed

lemma ReplaceAll_no_occurrence:
  "\<not> Contains s ''{}'' \<Longrightarrow> ReplaceAll s ''{}'' new = s"
  by (induction s) auto

lemma ReplaceAll_marker: "ReplaceAll (CHR ''{'' # CHR ''}'' # rest) ''{}'' new = new @ ReplaceAll rest ''{}'' new"
  by (simp add: HasPrefix_def)

lemma ReplaceAll_piece:
  "\<not> Contains piece ''{}'' \<Longrightarrow>
     ReplaceAll (piece @ CHR ''{'' # CHR ''}'' # rest) ''{}'' new = piece @ new @ ReplaceAll rest ''{}'' new"
proof (induction piece)
  case Nil
  show ?case using ReplaceAll_marker by simp
next
  case (Cons x xs)
  have np: "\<not> HasPrefix (x # xs) ''{}''" and nc: "\<not> Contains xs ''{}''"
    using Cons.prems by simp_all
  have "\<not> HasPrefix (x # xs @ CHR ''{'' # CHR ''}'' # rest) ''{}''"
  proof
    assume "HasPrefix (x # xs @ CHR ''{'' # CHR ''}'' # rest) ''{}''"
    then obtain t where t: "x # xs @ CHR ''{'' # CHR ''}'' # rest = CHR ''{'' # CHR ''}'' # t"
      unfolding marker_prefix by blast
    show False
    proof (cases xs)
      case Nil
      then show False using t by simp
    next
      case (Cons y ys)
      then have "x # xs = CHR ''{'' # CHR ''}'' # ys" using t by simp
      then show False using np unfolding marker_prefix by blast
    qed
  qed
  then have "ReplaceAll ((x # xs) @ CHR ''{'' # CHR ''}'' # rest) ''{}'' new =
      x # ReplaceAll (xs @ CHR ''{'' # CHR ''}'' # rest) ''{}'' new"
    by simp
  then show ?case using Cons.IH [OF nc] by simp
qed

lemma ReplaceAll_joinWith:
  "(\<And>x. x \<in> set pieces \<Longrightarrow> \<not> Contains x ''{}'') \<Longrightarrow>
     ReplaceAll (joinWith ''{}'' pieces) ''{}'' new = joinWith new pieces"
proof (induction "''{}''" pieces rule: joinWith.induct)
  case 1
  show ?case by simp
next
  case (2 x)
  then show ?case by (simp add: ReplaceAll_no_occurrence)
next
  case (3 x y rest)
  have "\<not> Contains x ''{}''" using 3(2) by simp
  then have "ReplaceAll (x @ CHR ''{'' # CHR ''}'' # joinWith ''{}'' (y # rest)) ''{}'' new
      = x @ new @ ReplaceAll (joinWith ''{}'' (y # rest)) ''{}'' new"
    by (rule ReplaceAll_piece)
  moreover have "ReplaceAll (joinWith ''{}'' (y # rest)) ''{}'' new = joinWith new (y # rest)"
    using 3 by simp
  ultimately show ?case by simp
qed

lemma splitMarker_props:
  "splitMarker s \<noteq> []
   \<and> joinWith ''{}'' (splitMarker s) = s
   \<and> (\<forall>x \<in> set (splitMarker s). \<not> Contains x ''{}'')
   \<and> (\<exists>t. s = hd (splitMarker s) @ t)"
proof (induction s rule: splitMarker.induct)
  case 1
  show ?case by simp
next
  case (2 x)
  show ?case by (simp add: HasPrefix_def)
next
  case (3 x y s)
  show ?case
  proof (cases "x = CHR ''{'' \<and> y = CHR ''}''")
    case True
    then have ih: "splitMarker s \<noteq> []" "joinWith ''{}'' (splitMarker s) = s"
      "\<forall>x \<in> set (splitMarker s). \<not> Contains x ''{}''"
      using 3(1) by simp_all
    obtain q qs where q: "splitMarker s = q # qs" using ih(1) by (cases "splitMarker s") auto
    show ?thesis using True ih q by simp
  next
    case False
    then have ih: "splitMarker (y # s) \<noteq> []" "joinWith ''{}'' (splitMarker (y # s)) = y # s"
      "\<forall>x \<in> set (splitMarker (y # s)). \<not> Contains x ''{}''"
      "\<exists>t. y # s = hd (splitMarker (y # s)) @ t"
      using 3(2) by simp_all
    obtain q qs where q: "splitMarker (y # s) = q # qs"
      using ih(1) by (cases "splitMarker (y # s)") auto
    have sm: "splitMarker (x # y # s) = (x # q) # qs"
      using False q by simp
    obtain t where t: "y # s = q @ t" using ih(4) q by auto
    have j: "joinWith ''{}'' ((x # q) # qs) = x # joinWith ''{}'' (q # qs)"
      by (cases qs) simp_all
    have nq: "\<not> Contains q ''{}''" using ih(3) q by simp
    have np: "\<not> HasPrefix (x # q) ''{}''"
    proof
      assume "HasPrefix (x # q) ''{}''"
      then obtain u where "x # q = CHR ''{'' # CHR ''}'' # u" unfolding marker_prefix by blast
      then have "x = CHR ''{''" "q = CHR ''}'' # u" by simp_all
      then have "y = CHR ''}''" using t by simp
      then show False using False \<open>x = CHR ''{''\<close> by simp
    qed
    have "\<not> Contains (x # q) ''{}''" using np nq by simp
    then show ?thesis
      using sm j ih q t by auto
  qed
qed

lemma wrapParens_eq:
  "wrapParens s = (if HasPrefix s ''('' \<and> HasSuffix s '')'' then s else ''('' @ s @ '')'')"
proof (cases s rule: rev_cases)
  case Nil
  then show ?thesis by (simp add: wrapParens_def HasPrefix_def HasSuffix_def)
next
  case (snoc ys y)
  then show ?thesis by (cases ys) (auto simp: wrapParens_def HasPrefix_def HasSuffix_def)
qed

text \<open>
  C6. The filter of the search request is the one \<open>userSearchFilter\<close> builds. With an
  empty configured filter, it is \<open>(UsernameAttribute=escape(U))\<close>. Otherwise the configured filter is cut at the
  occurrences of \<open>{}\<close>: however it is written as pieces without \<open>{}\<close> joined by
  \<open>{}\<close>, the search filter is these pieces joined by the escaped username, put in
  parentheses unless that string begins with \<open>(\<close> and ends with \<open>)\<close>; and every
  configured filter can be written so.
\<close>

theorem userSearchFilter_spec:
  "SearchRequest.Filter (userSearchRequest p U) = userSearchFilter p U
   \<and> (UserSearchConfig.Filter (UserSearch (c p)) = [] \<longrightarrow>
      userSearchFilter p U = ''('' @ UsernameAttribute (UserSearch (c p)) @ ''='' @ EscapeFilter U @ '')'')
   \<and> (UserSearchConfig.Filter (UserSearch (c p)) \<noteq> [] \<longrightarrow>
      (\<forall>pieces. UserSearchConfig.Filter (UserSearch (c p)) = joinWith ''{}'' pieces
          \<and> (\<forall>x \<in> set pieces. \<not> Contains x ''{}'') \<longrightarrow>
          userSearchFilter p U = wrapParens (joinWith (EscapeFilter U) pieces)))
   \<and> (\<exists>pieces. UserSearchConfig.Filter (UserSearch (c p)) = joinWith ''{}'' pieces
          \<and> (\<forall>x \<in> set pieces. \<not> Contains x ''{}''))"
proof (intro conjI impI allI)
  show "SearchRequest.Filter (userSearchRequest p U) = userSearchFilter p U"
    by (simp add: userSearchRequest_def)
next
  assume "UserSearchConfig.Filter (UserSearch (c p)) = []"
  then show "userSearchFilter p U = ''('' @ UsernameAttribute (UserSearch (c p)) @ ''='' @ EscapeFilter U @ '')''"
    by (simp add: userSearchFilter_def escapeUsernameForSearchFilter_def)
next
  fix pieces
  assume ne: "UserSearchConfig.Filter (UserSearch (c p)) \<noteq> []"
    and d: "UserSearchConfig.Filter (UserSearch (c p)) = joinWith ''{}'' pieces
          \<and> (\<forall>x \<in> set pieces. \<not> Contains x ''{}'')"
  then have "ReplaceAll (UserSearchConfig.Filter (UserSearch (c p))) ''{}'' (EscapeFilter U)
      = joinWith (EscapeFilter U) pieces"
    using ReplaceAll_joinWith [of pieces "EscapeFilter U"] by simp
  then show "userSearchFilter p U = wrapParens (joinWith (EscapeFilter U) pieces)"
    using ne
    by (simp add: userSearchFilter_def escapeUsernameForSearchFilter_def Let_def
        userSearchFilterInterpolationLocationMarker_def wrapParens_eq)
next
  show "\<exists>pieces. UserSearchConfig.Filter (UserSearch (c p)) = joinWith ''{}'' pieces
          \<and> (\<forall>x \<in> set pieces. \<not> Contains x ''{}'')"
    using splitMarker_props [of "UserSearchConfig.Filter (UserSearch (c p))"] by metis
qed

theorem userSearchFilter_spec_witness:
  "userSearchFilter (New (exConfig ''cn'' [])) ''a*b'' = ''(cn=a'' @ [CHR 0x5C] @ ''2ab)''
   \<and> userSearchFilter (New (exConfig ''dn'' ''(|(cn={})(mail={}))'')) ''al'' = ''(|(cn=al)(mail=al))''
   \<and> userSearchFilter (New (exConfig ''cn'' ''mail={}'')) ''al'' = ''(mail=al)''"
proof -
  let ?p = "New (exConfig ''dn'' ''(|(cn={})(mail={}))'')"
  let ?q = "New (exConfig ''cn'' ''mail={}'')"
  have e: "EscapeFilter ''a*b'' = ''a'' @ [CHR 0x5C] @ ''2ab''" "EscapeFilter ''al'' = ''al''"
    by (simp_all add: mustEscape_def hex_def)
  have 1: "userSearchFilter (New (exConfig ''cn'' [])) ''a*b'' = ''(cn=a'' @ [CHR 0x5C] @ ''2ab)''"
    using userSearchFilter_spec [of "New (exConfig ''cn'' [])" "''a*b''"] e
    by (simp add: New_def exConfig_def)
  have fp: "UserSearchConfig.Filter (UserSearch (c ?p)) = ''(|(cn={})(mail={}))''"
    and fq: "UserSearchConfig.Filter (UserSearch (c ?q)) = ''mail={}''"
    by (simp_all add: New_def exConfig_def)
  from userSearchFilter_spec [of ?p "''al''"] fp
  have "\<forall>pieces. ''(|(cn={})(mail={}))'' = joinWith ''{}'' pieces
          \<and> (\<forall>x \<in> set pieces. \<not> Contains x ''{}'') \<longrightarrow>
          userSearchFilter ?p ''al'' = wrapParens (joinWith (EscapeFilter ''al'') pieces)"
    by simp
  from this [rule_format, of "[''(|(cn='', '')(mail='', ''))'']"]
  have 2: "userSearchFilter ?p ''al'' = ''(|(cn=al)(mail=al))''"
    by (simp add: HasPrefix_def wrapParens_def mustEscape_def)
  from userSearchFilter_spec [of ?q "''al''"] fq
  have "\<forall>pieces. ''mail={}'' = joinWith ''{}'' pieces
          \<and> (\<forall>x \<in> set pieces. \<not> Contains x ''{}'') \<longrightarrow>
          userSearchFilter ?q ''al'' = wrapParens (joinWith (EscapeFilter ''al'') pieces)"
    by simp
  from this [rule_format, of "[''mail='', []]"]
  have 3: "userSearchFilter ?q ''al'' = ''(mail=al)''"
    by (simp add: HasPrefix_def wrapParens_def mustEscape_def)
  show ?thesis using 1 2 3 by blast
qed

section \<open>Authentication against the directory\<close>

lemma getSearchResultAttributeValue_nonempty:
  assumes "getSearchResultAttributeValue p attributeName e username = Inr v" and "DN e \<noteq> []"
  shows "v \<noteq> []"
  using assms
  by (auto simp: getSearchResultAttributeValue_def Let_def split: if_splits)

lemma searchAndBindUser_cases:
  assumes "callSearch conn (userSearchRequest p username) st = (r, st1)"
  shows "searchAndBindUser p conn username bindFunc st =
     (case r of
        Inl err \<Rightarrow> (Inl (''error searching for user \"'' @ username @ ''\": '' @ err), st1)
      | Inr entries \<Rightarrow>
          if length entries = 0 then (Inr ([], []), st1)
          else if length entries > 1 then
            (Inl (''searching for user \"'' @ username @ ''\" resulted in ''
                    @ Itoa (length entries) @ '' search results, but expected 1 result''), st1)
          else
            let userEntry = entries ! 0 in
            if length (DN userEntry) = 0 then
              (Inl (''searching for user \"'' @ username
                      @ ''\" resulted in search result without DN''), st1)
            else
              (case getSearchResultAttributeValue p (UsernameAttribute (UserSearch (c p)))
                      userEntry username of
                 Inl err \<Rightarrow> (Inl err, st1)
               | Inr mappedUsername \<Rightarrow>
              (case getSearchResultAttributeValue p (UIDAttribute (UserSearch (c p)))
                      userEntry username of
                 Inl err \<Rightarrow> (Inl err, st1)
               | Inr mappedUID \<Rightarrow>
              (case bindFunc conn (DN userEntry) st1 of
                 (Some err, st2) \<Rightarrow>
                   if HasPrefix err invalidCredentialsErrorPrefix then (Inr ([], []), st2)
                   else
                     (Inl (''error binding for user \"'' @ username
                             @ ''\" using provided password against DN \"'' @ DN userEntry
                             @ ''\": '' @ err), st2)
               | (None, st2) \<Rightarrow> (Inr (mappedUsername, mappedUID), st2)))))"
  unfolding searchAndBindUser_def using assms by (cases r) simp_all

lemma searchAndBindUser_zero:
  assumes "callSearch conn (userSearchRequest p username) st = (Inr [], st1)"
  shows "searchAndBindUser p conn username bindFunc st = (Inr ([], []), st1)"
  by (simp add: searchAndBindUser_cases [OF assms])

lemma searchAndBindUser_many:
  assumes "callSearch conn (userSearchRequest p username) st = (Inr entries, st1)"
    and "length entries \<ge> 2"
  shows "searchAndBindUser p conn username bindFunc st =
     (Inl (''searching for user \"'' @ username @ ''\" resulted in ''
             @ Itoa (length entries) @ '' search results, but expected 1 result''), st1)"
  using assms(2) by (auto simp add: searchAndBindUser_cases [OF assms(1)])

lemma searchAndBindUser_invalid_credentials:
  assumes "callSearch conn (userSearchRequest p username) st = (Inr [e], st1)"
    and "DN e \<noteq> []"
    and "getSearchResultAttributeValue p (UsernameAttribute (UserSearch (c p))) e username = Inr name"
    and "getSearchResultAttributeValue p (UIDAttribute (UserSearch (c p))) e username = Inr uid"
    and "bindFunc conn (DN e) st1 = (Some msg, st2)"
    and "HasPrefix msg invalidCredentialsErrorPrefix"
  shows "searchAndBindUser p conn username bindFunc st = (Inr ([], []), st2)"
  using assms(2-) by (simp add: searchAndBindUser_cases [OF assms(1)])

lemma searchAndBindUser_empty_only:
  assumes "searchAndBindUser p conn username bindFunc st = (Inr (name, uid), st2)"
    and "name = [] \<or> uid = []"
  shows "(\<exists>st1. callSearch conn (userSearchRequest p username) st = (Inr [], st1) \<and> st2 = st1)
       \<or> (\<exists>st1 e name' uid' msg.
             callSearch conn (userSearchRequest p username) st = (Inr [e], st1)
             \<and> DN e \<noteq> []
             \<and> getSearchResultAttributeValue p (UsernameAttribute (UserSearch (c p))) e username = Inr name'
             \<and> getSearchResultAttributeValue p (UIDAttribute (UserSearch (c p))) e username = Inr uid'
             \<and> bindFunc conn (DN e) st1 = (Some msg, st2)
             \<and> HasPrefix msg invalidCredentialsErrorPrefix)"
proof -
  obtain r st1 where s: "callSearch conn (userSearchRequest p username) st = (r, st1)"
    by (cases "callSearch conn (userSearchRequest p username) st")
  note eq = searchAndBindUser_cases [OF s, of bindFunc]
  show ?thesis
  proof (cases r)
    case (Inl err)
    then show ?thesis using eq assms(1) by simp
  next
    case (Inr entries)
    show ?thesis
    proof (cases entries)
      case Nil
      then show ?thesis using eq assms(1) s Inr by simp
    next
      case (Cons e rest)
      show ?thesis
      proof (cases rest)
        case (Cons e2 rest2)
        then show ?thesis using eq assms(1) Inr \<open>entries = e # rest\<close> by simp
      next
        case Nil
        with Cons have ent: "entries = [e]" by simp
        show ?thesis
        proof (cases "DN e = []")
          case True
          then show ?thesis using eq assms(1) Inr ent by simp
        next
          case False
          show ?thesis
          proof (cases "getSearchResultAttributeValue p (UsernameAttribute (UserSearch (c p))) e username")
            case (Inl err)
            then show ?thesis using eq assms(1) Inr ent False by simp
          next
            case a: (Inr name')
            show ?thesis
            proof (cases "getSearchResultAttributeValue p (UIDAttribute (UserSearch (c p))) e username")
              case (Inl err)
              then show ?thesis using eq assms(1) Inr ent False a by simp
            next
              case b: (Inr uid')
              obtain bo st2' where bf: "bindFunc conn (DN e) st1 = (bo, st2')"
                by (cases "bindFunc conn (DN e) st1")
              show ?thesis
              proof (cases bo)
                case None
                then have "name = name'" "uid = uid'"
                  using eq assms(1) Inr ent False a b bf by simp_all
                then have False
                  using assms(2) getSearchResultAttributeValue_nonempty [OF a False]
                    getSearchResultAttributeValue_nonempty [OF b False] by blast
                then show ?thesis ..
              next
                case (Some msg)
                then have "HasPrefix msg invalidCredentialsErrorPrefix \<and> st2 = st2'"
                  using eq assms(1) Inr ent False a b bf by (simp split: if_splits)
                then show ?thesis
                  using s Inr ent False a b bf Some by blast
              qed
            qed
          qed
        qed
      qed
    qed
  qed
qed


lemma authenticateUserImpl_empty_username:
  assumes "validateConfig p = None"
  shows "authenticateUserImpl sys h p ctx [] bindFunc st = (unauthenticated, st)"
  using assms by (simp add: authenticateUserImpl_def unauthenticated_def)

lemma authenticateUserImpl_bound:
  assumes "validateConfig p = None" and "username \<noteq> []"
    and "dial sys h p ctx st = (Inr conn, st1)"
    and "callBind conn (BindUsername (c p)) (BindPassword (c p)) st1 = (None, st2)"
    and "searchAndBindUser p conn username bindFunc st2 = (r, st3)"
  shows "authenticateUserImpl sys h p ctx username bindFunc st =
     (case r of
        Inl err \<Rightarrow> ((None, False, Some err), callClose conn st3)
      | Inr (mappedUsername, mappedUID) \<Rightarrow>
          if mappedUsername = [] \<or> mappedUID = [] then (unauthenticated, callClose conn st3)
          else
            ((Some \<lparr>User = \<lparr>Name = mappedUsername, UID = mappedUID, Groups = []\<rparr>\<rparr>,
              True, None),
             callClose conn st3))"
  using assms
  by (simp add: authenticateUserImpl_def unauthenticated_def split: sum.splits prod.splits)

lemma authenticateUserImpl_unauthenticated_only:
  assumes "validateConfig p = None" and "username \<noteq> []"
    and "fst (authenticateUserImpl sys h p ctx username bindFunc st) = unauthenticated"
  shows "\<exists>conn st1 st2 st3.
           dial sys h p ctx st = (Inr conn, st1)
           \<and> callBind conn (BindUsername (c p)) (BindPassword (c p)) st1 = (None, st2)
           \<and> (\<exists>name uid. searchAndBindUser p conn username bindFunc st2 = (Inr (name, uid), st3)
                  \<and> (name = [] \<or> uid = []))"
proof -
  obtain d st1 where d: "dial sys h p ctx st = (d, st1)"
    by (cases "dial sys h p ctx st")
  show ?thesis
  proof (cases d)
    case (Inl err)
    then show ?thesis
      using assms d by (simp add: authenticateUserImpl_def unauthenticated_def)
  next
    case (Inr conn)
    obtain b st2 where b: "callBind conn (BindUsername (c p)) (BindPassword (c p)) st1 = (b, st2)"
      by (cases "callBind conn (BindUsername (c p)) (BindPassword (c p)) st1")
    show ?thesis
    proof (cases b)
      case (Some err)
      then show ?thesis
        using assms d Inr b by (simp add: authenticateUserImpl_def unauthenticated_def)
    next
      case None
      obtain r st3 where r: "searchAndBindUser p conn username bindFunc st2 = (r, st3)"
        by (cases "searchAndBindUser p conn username bindFunc st2")
      have eq: "authenticateUserImpl sys h p ctx username bindFunc st =
         (case r of
            Inl err \<Rightarrow> ((None, False, Some err), callClose conn st3)
          | Inr (mappedUsername, mappedUID) \<Rightarrow>
              if mappedUsername = [] \<or> mappedUID = [] then (unauthenticated, callClose conn st3)
              else
                ((Some \<lparr>User = \<lparr>Name = mappedUsername, UID = mappedUID, Groups = []\<rparr>\<rparr>,
                  True, None),
                 callClose conn st3))"
        using authenticateUserImpl_bound [OF assms(1,2) _ _ r] d Inr b None by simp
      show ?thesis
      proof (cases r)
        case (Inl err)
        then show ?thesis using eq assms(3) by (simp add: unauthenticated_def)
      next
        case r2: (Inr pair)
        obtain name uid where pair: "pair = (name, uid)" by (cases pair)
        have "name = [] \<or> uid = []"
          using eq assms(3) r2 pair by (auto simp: unauthenticated_def split: if_splits)
        then show ?thesis
          using d Inr b None r r2 pair by blast
      qed
    qed
  qed
qed

lemma AuthenticateUser_impl:
  "AuthenticateUser sys h p ctx username password st =
     authenticateUserImpl sys h p ctx username (\<lambda>conn foundUserDN. callBind conn foundUserDN password) st"
  by (simp add: AuthenticateUser_def)

lemma DryRunAuthenticateUser_impl:
  "DryRunAuthenticateUser sys h p ctx username st =
     authenticateUserImpl sys h p ctx username (\<lambda>conn foundUserDN st. (None, st)) st"
  by (simp add: DryRunAuthenticateUser_def)

lemma ex_host: "hostAndPortWithDefaultPort ''ldap.example.com'' DefaultLdapsPort = Inr ''ldap.example.com:636''"
  using hostAndPort_host [of "''ldap.example.com''" "''636''"]
  by (simp add: plain_def DefaultLdapsPort_def)

lemma ex_dial:
  "dial sys h (New (exConfig attribute searchFilter)) () st =
     (Inr exConn, (Suc (fst st), snd st @ [DialEv ''ldap.example.com:636'']))"
  by (simp add: dial_def New_def exConfig_def ex_host callDial_def exDialer_def)

lemma ex_bind_admin:
  "callBind exConn (BindUsername (c (New (exConfig attribute searchFilter))))
       (BindPassword (c (New (exConfig attribute searchFilter)))) st =
     (None, (Suc (fst st), snd st @ [BindEv ''cn=admin'' ''secret'']))"
  by (simp add: callBind_def exConn_def New_def exConfig_def)

lemma ex_valid: "validateConfig (New (exConfig ''cn'' [])) = None"
  by (simp add: validateConfig_def New_def exConfig_def distinguishedNameAttributeName_def)

lemma ex_request:
  "SearchRequest.Filter (userSearchRequest (New (exConfig ''cn'' [])) u) = ''(cn='' @ EscapeFilter u @ '')''"
  by (simp add: userSearchRequest_def userSearchFilter_def escapeUsernameForSearchFilter_def
      New_def exConfig_def)

lemma ex_search:
  "callSearch exConn (userSearchRequest (New (exConfig ''cn'' [])) u) st =
     (if EscapeFilter u = ''alice'' then Inr [exAlice]
      else if EscapeFilter u = ''bob'' then Inr [exBob ''users'', exBob ''staff'']
      else Inr [],
      (Suc (fst st), snd st @ [SearchEv (userSearchRequest (New (exConfig ''cn'' [])) u)]))"
  by (simp add: callSearch_def exConn_def ex_request)

lemma char_of_50: "char_of (50 :: nat) = CHR ''2''"
  by code_simp

lemma ex_attrs:
  "getSearchResultAttributeValue (New (exConfig ''cn'' []))
      (UsernameAttribute (UserSearch (c (New (exConfig ''cn'' []))))) exAlice u = Inr ''alice''"
  "getSearchResultAttributeValue (New (exConfig ''cn'' []))
      (UIDAttribute (UserSearch (c (New (exConfig ''cn'' []))))) exAlice u = Inr ''1001''"
  by (simp_all add: getSearchResultAttributeValue_def New_def exConfig_def exAlice_def
      GetAttributeValues_def distinguishedNameAttributeName_def)

lemma ex_bind_wrong:
  "callBind exConn (DN exAlice) ''wrong'' st =
     (Some ''LDAP Result Code 49 \"Invalid Credentials\": '',
      (Suc (fst st), snd st @ [BindEv ''cn=alice,ou=users,dc=x'' ''wrong'']))"
  by (simp add: callBind_def exConn_def exAlice_def)

lemma ex_prefix:
  "HasPrefix ''LDAP Result Code 49 \"Invalid Credentials\": '' invalidCredentialsErrorPrefix"
  by (simp add: HasPrefix_def invalidCredentialsErrorPrefix_def)

text \<open>
  The first scenario of the specification: \<open>alice\<close> gives her password and is
  authenticated with her name and UID and no groups, after a dial, the bind of the
  service account, the search, her own bind and the close.
\<close>

lemma ex_authenticate_alice:
  "AuthenticateUser exTls exHeap (New (exConfig ''cn'' [])) () ''alice'' ''pw'' (0, []) =
     ((Some \<lparr>User = \<lparr>Name = ''alice'', UID = ''1001'', Groups = []\<rparr>\<rparr>, True, None),
      (5, [DialEv ''ldap.example.com:636'', BindEv ''cn=admin'' ''secret'',
           SearchEv (userSearchRequest (New (exConfig ''cn'' [])) ''alice''),
           BindEv ''cn=alice,ou=users,dc=x'' ''pw'', CloseEv]))"
proof -
  let ?p = "New (exConfig ''cn'' [])"
  let ?bf = "\<lambda>conn foundUserDN. callBind conn foundUserDN ''pw''"
  let ?st2 = "(Suc (Suc 0), [DialEv ''ldap.example.com:636'', BindEv ''cn=admin'' ''secret''])"
  have s: "searchAndBindUser ?p exConn ''alice'' ?bf ?st2 =
      (Inr (''alice'', ''1001''),
       (4, [DialEv ''ldap.example.com:636'', BindEv ''cn=admin'' ''secret'',
            SearchEv (userSearchRequest ?p ''alice''), BindEv ''cn=alice,ou=users,dc=x'' ''pw'']))"
    by (simp add: searchAndBindUser_def ex_search mustEscape_def ex_attrs)
       (simp add: callBind_def exConn_def exAlice_def)
  have d: "dial exTls exHeap ?p () (0, []) = (Inr exConn, (Suc 0, [DialEv ''ldap.example.com:636'']))"
    by (simp add: ex_dial)
  have b: "callBind exConn (BindUsername (c ?p)) (BindPassword (c ?p))
             (Suc 0, [DialEv ''ldap.example.com:636'']) = (None, ?st2)"
    by (simp add: ex_bind_admin)
  have "''alice'' \<noteq> []" by simp
  from authenticateUserImpl_bound [OF ex_valid this d b s]
  show ?thesis
    unfolding AuthenticateUser_impl by (simp add: callClose_def exConn_def)
qed

text \<open>
  C5. For a valid configuration, \<open>AuthenticateUser\<close> and \<open>DryRunAuthenticateUser\<close> run
  \<open>authenticateUserImpl\<close> with their bind function, and this returns
  \<open>(nil, false, nil)\<close> when the username is empty, when the search made after the
  dial and the bind of the service account returns no entry, and when the bind of
  the end user to the one entry found fails with a message that begins with the
  invalid-credentials prefix; it returns these three values in no other case. A
  search that returns two entries or more gives an error.
\<close>

theorem unauthenticated_cases:
  assumes "validateConfig p = None"
  shows
    "AuthenticateUser sys h p ctx username password st =
       authenticateUserImpl sys h p ctx username (\<lambda>conn foundUserDN. callBind conn foundUserDN password) st
     \<and> DryRunAuthenticateUser sys h p ctx username st =
       authenticateUserImpl sys h p ctx username (\<lambda>conn foundUserDN st. (None, st)) st
     \<and> (username = [] \<longrightarrow>
          authenticateUserImpl sys h p ctx username bindFunc st = (unauthenticated, st))
     \<and> (\<forall>conn st1 st2 st3.
          username \<noteq> []
          \<and> dial sys h p ctx st = (Inr conn, st1)
          \<and> callBind conn (BindUsername (c p)) (BindPassword (c p)) st1 = (None, st2)
          \<and> callSearch conn (userSearchRequest p username) st2 = (Inr [], st3) \<longrightarrow>
          authenticateUserImpl sys h p ctx username bindFunc st
            = (unauthenticated, callClose conn st3))
     \<and> (\<forall>conn st1 st2 st3 st4 e name uid msg.
          username \<noteq> []
          \<and> dial sys h p ctx st = (Inr conn, st1)
          \<and> callBind conn (BindUsername (c p)) (BindPassword (c p)) st1 = (None, st2)
          \<and> callSearch conn (userSearchRequest p username) st2 = (Inr [e], st3)
          \<and> DN e \<noteq> []
          \<and> getSearchResultAttributeValue p (UsernameAttribute (UserSearch (c p))) e username = Inr name
          \<and> getSearchResultAttributeValue p (UIDAttribute (UserSearch (c p))) e username = Inr uid
          \<and> bindFunc conn (DN e) st3 = (Some msg, st4)
          \<and> HasPrefix msg invalidCredentialsErrorPrefix \<longrightarrow>
          authenticateUserImpl sys h p ctx username bindFunc st
            = (unauthenticated, callClose conn st4))
     \<and> (\<forall>conn st1 st2 st3 entries.
          username \<noteq> []
          \<and> dial sys h p ctx st = (Inr conn, st1)
          \<and> callBind conn (BindUsername (c p)) (BindPassword (c p)) st1 = (None, st2)
          \<and> callSearch conn (userSearchRequest p username) st2 = (Inr entries, st3)
          \<and> length entries \<ge> 2 \<longrightarrow>
          authenticateUserImpl sys h p ctx username bindFunc st
            = ((None, False,
                Some (''searching for user \"'' @ username @ ''\" resulted in ''
                        @ Itoa (length entries) @ '' search results, but expected 1 result'')),
               callClose conn st3))
     \<and> (fst (authenticateUserImpl sys h p ctx username bindFunc st) = unauthenticated \<longrightarrow>
          username = []
          \<or> (\<exists>conn st1 st2 st3.
                dial sys h p ctx st = (Inr conn, st1)
                \<and> callBind conn (BindUsername (c p)) (BindPassword (c p)) st1 = (None, st2)
                \<and> (callSearch conn (userSearchRequest p username) st2 = (Inr [], st3)
                    \<or> (\<exists>e name uid msg st4.
                          callSearch conn (userSearchRequest p username) st2 = (Inr [e], st3)
                          \<and> DN e \<noteq> []
                          \<and> getSearchResultAttributeValue p (UsernameAttribute (UserSearch (c p)))
                                e username = Inr name
                          \<and> getSearchResultAttributeValue p (UIDAttribute (UserSearch (c p)))
                                e username = Inr uid
                          \<and> bindFunc conn (DN e) st3 = (Some msg, st4)
                          \<and> HasPrefix msg invalidCredentialsErrorPrefix))))"
proof (intro conjI allI impI)
  show "AuthenticateUser sys h p ctx username password st =
       authenticateUserImpl sys h p ctx username (\<lambda>conn foundUserDN. callBind conn foundUserDN password) st"
    by (rule AuthenticateUser_impl)
  show "DryRunAuthenticateUser sys h p ctx username st =
       authenticateUserImpl sys h p ctx username (\<lambda>conn foundUserDN st. (None, st)) st"
    by (rule DryRunAuthenticateUser_impl)
next
  assume "username = []"
  then show "authenticateUserImpl sys h p ctx username bindFunc st = (unauthenticated, st)"
    using authenticateUserImpl_empty_username [OF assms(1)] by simp
next
  fix conn st1 st2 st3
  assume a: "username \<noteq> []
          \<and> dial sys h p ctx st = (Inr conn, st1)
          \<and> callBind conn (BindUsername (c p)) (BindPassword (c p)) st1 = (None, st2)
          \<and> callSearch conn (userSearchRequest p username) st2 = (Inr [], st3)"
  then have "searchAndBindUser p conn username bindFunc st2 = (Inr ([], []), st3)"
    by (simp add: searchAndBindUser_zero)
  from authenticateUserImpl_bound [OF assms(1) _ _ _ this, of sys h ctx st st1] a
  show "authenticateUserImpl sys h p ctx username bindFunc st = (unauthenticated, callClose conn st3)"
    by simp
next
  fix conn st1 st2 st3 st4 e name uid msg
  assume a: "username \<noteq> []
          \<and> dial sys h p ctx st = (Inr conn, st1)
          \<and> callBind conn (BindUsername (c p)) (BindPassword (c p)) st1 = (None, st2)
          \<and> callSearch conn (userSearchRequest p username) st2 = (Inr [e], st3)
          \<and> DN e \<noteq> []
          \<and> getSearchResultAttributeValue p (UsernameAttribute (UserSearch (c p))) e username = Inr name
          \<and> getSearchResultAttributeValue p (UIDAttribute (UserSearch (c p))) e username = Inr uid
          \<and> bindFunc conn (DN e) st3 = (Some msg, st4)
          \<and> HasPrefix msg invalidCredentialsErrorPrefix"
  then have "searchAndBindUser p conn username bindFunc st2 = (Inr ([], []), st4)"
    using searchAndBindUser_invalid_credentials [of conn p username st2 e st3 name uid bindFunc msg st4]
    by blast
  from authenticateUserImpl_bound [OF assms(1) _ _ _ this, of sys h ctx st st1] a
  show "authenticateUserImpl sys h p ctx username bindFunc st = (unauthenticated, callClose conn st4)"
    by simp
next
  fix conn st1 st2 st3 entries
  assume a: "username \<noteq> []
          \<and> dial sys h p ctx st = (Inr conn, st1)
          \<and> callBind conn (BindUsername (c p)) (BindPassword (c p)) st1 = (None, st2)
          \<and> callSearch conn (userSearchRequest p username) st2 = (Inr entries, st3)
          \<and> length entries \<ge> 2"
  then have "searchAndBindUser p conn username bindFunc st2 =
     (Inl (''searching for user \"'' @ username @ ''\" resulted in ''
             @ Itoa (length entries) @ '' search results, but expected 1 result''), st3)"
    using searchAndBindUser_many [of conn p username st2 entries st3 bindFunc] by blast
  from authenticateUserImpl_bound [OF assms(1) _ _ _ this, of sys h ctx st st1] a
  show "authenticateUserImpl sys h p ctx username bindFunc st
            = ((None, False,
                Some (''searching for user \"'' @ username @ ''\" resulted in ''
                        @ Itoa (length entries) @ '' search results, but expected 1 result'')),
               callClose conn st3)"
    by simp
next
  assume u: "fst (authenticateUserImpl sys h p ctx username bindFunc st) = unauthenticated"
  show "username = []
          \<or> (\<exists>conn st1 st2 st3.
                dial sys h p ctx st = (Inr conn, st1)
                \<and> callBind conn (BindUsername (c p)) (BindPassword (c p)) st1 = (None, st2)
                \<and> (callSearch conn (userSearchRequest p username) st2 = (Inr [], st3)
                    \<or> (\<exists>e name uid msg st4.
                          callSearch conn (userSearchRequest p username) st2 = (Inr [e], st3)
                          \<and> DN e \<noteq> []
                          \<and> getSearchResultAttributeValue p (UsernameAttribute (UserSearch (c p)))
                                e username = Inr name
                          \<and> getSearchResultAttributeValue p (UIDAttribute (UserSearch (c p)))
                                e username = Inr uid
                          \<and> bindFunc conn (DN e) st3 = (Some msg, st4)
                          \<and> HasPrefix msg invalidCredentialsErrorPrefix)))"
  proof (cases "username = []")
    case True
    then show ?thesis by simp
  next
    case False
    from authenticateUserImpl_unauthenticated_only [OF assms(1) False u]
    obtain conn st1 st2 st3 name uid where
      d: "dial sys h p ctx st = (Inr conn, st1)"
      and b: "callBind conn (BindUsername (c p)) (BindPassword (c p)) st1 = (None, st2)"
      and s: "searchAndBindUser p conn username bindFunc st2 = (Inr (name, uid), st3)"
      and e: "name = [] \<or> uid = []"
      by blast
    from searchAndBindUser_empty_only [OF s e] show ?thesis
      using d b by blast
  qed
qed

theorem unauthenticated_cases_witness:
  "fst (AuthenticateUser exTls exHeap (New (exConfig ''cn'' [])) () [] ''pw'' (0, [])) = unauthenticated
   \<and> fst (AuthenticateUser exTls exHeap (New (exConfig ''cn'' [])) () ''carol'' ''pw'' (0, []))
       = unauthenticated
   \<and> fst (AuthenticateUser exTls exHeap (New (exConfig ''cn'' [])) () ''alice'' ''wrong'' (0, []))
       = unauthenticated
   \<and> fst (DryRunAuthenticateUser exTls exHeap (New (exConfig ''cn'' [])) () ''bob'' (0, []))
       = (None, False,
          Some ''searching for user \"bob\" resulted in 2 search results, but expected 1 result'')"
proof -
  let ?p = "New (exConfig ''cn'' [])"
  let ?bf = "\<lambda>conn foundUserDN. callBind conn foundUserDN ''wrong''"
  let ?st1 = "(Suc 0, [DialEv ''ldap.example.com:636''])"
  let ?st2 = "(Suc (Suc 0), [DialEv ''ldap.example.com:636'', BindEv ''cn=admin'' ''secret''])"
  let ?st3 = "\<lambda>u. (Suc (Suc (Suc 0)), [DialEv ''ldap.example.com:636'', BindEv ''cn=admin'' ''secret'',
       SearchEv (userSearchRequest ?p u)])"
  note th = unauthenticated_cases [OF ex_valid, where sys = exTls and h = exHeap and ctx = "()"
      and st = "(0, [])"]
  have d: "dial exTls exHeap ?p () (0, []) = (Inr exConn, ?st1)"
    by (simp add: ex_dial)
  have b: "callBind exConn (BindUsername (c ?p)) (BindPassword (c ?p)) ?st1 = (None, ?st2)"
    by (simp add: ex_bind_admin)
  have s: "callSearch exConn (userSearchRequest ?p ''carol'') ?st2 = (Inr [], ?st3 ''carol'')"
    by (simp add: ex_search mustEscape_def)
  have sa: "callSearch exConn (userSearchRequest ?p ''alice'') ?st2 = (Inr [exAlice], ?st3 ''alice'')"
    by (simp add: ex_search mustEscape_def)
  have sb: "callSearch exConn (userSearchRequest ?p ''bob'') ?st2
              = (Inr [exBob ''users'', exBob ''staff''], ?st3 ''bob'')"
    by (simp add: ex_search mustEscape_def)
  have dn: "DN exAlice \<noteq> []" by (simp add: exAlice_def)
  have 1: "fst (AuthenticateUser exTls exHeap ?p () [] ''pw'' (0, [])) = unauthenticated"
    using th [where password = "''pw''" and username = "[]"
        and bindFunc = "\<lambda>conn foundUserDN. callBind conn foundUserDN ''pw''"] by simp
  have 2: "fst (AuthenticateUser exTls exHeap ?p () ''carol'' ''pw'' (0, [])) = unauthenticated"
    using th [where password = "''pw''" and username = "''carol''"
        and bindFunc = "\<lambda>conn foundUserDN. callBind conn foundUserDN ''pw''"] d b s
    by simp
  have 3: "fst (AuthenticateUser exTls exHeap ?p () ''alice'' ''wrong'' (0, [])) = unauthenticated"
  proof -
    from th [where password = "''wrong''" and username = "''alice''" and bindFunc = ?bf]
    have "\<forall>conn st1 st2 st3 st4 e name uid msg.
          ''alice'' \<noteq> []
          \<and> dial exTls exHeap ?p () (0, []) = (Inr conn, st1)
          \<and> callBind conn (BindUsername (c ?p)) (BindPassword (c ?p)) st1 = (None, st2)
          \<and> callSearch conn (userSearchRequest ?p ''alice'') st2 = (Inr [e], st3)
          \<and> DN e \<noteq> []
          \<and> getSearchResultAttributeValue ?p (UsernameAttribute (UserSearch (c ?p))) e ''alice'' = Inr name
          \<and> getSearchResultAttributeValue ?p (UIDAttribute (UserSearch (c ?p))) e ''alice'' = Inr uid
          \<and> ?bf conn (DN e) st3 = (Some msg, st4)
          \<and> HasPrefix msg invalidCredentialsErrorPrefix \<longrightarrow>
          authenticateUserImpl exTls exHeap ?p () ''alice'' ?bf (0, [])
            = (unauthenticated, callClose conn st4)"
      by blast
    from this [rule_format, of exConn ?st1 ?st2 exAlice "?st3 ''alice''" "''alice''" "''1001''"
        "''LDAP Result Code 49 \"Invalid Credentials\": ''"
        "(Suc (fst (?st3 ''alice'')), snd (?st3 ''alice'') @ [BindEv ''cn=alice,ou=users,dc=x'' ''wrong''])"]
    have "authenticateUserImpl exTls exHeap ?p () ''alice'' ?bf (0, []) =
        (unauthenticated, callClose exConn
          (Suc (fst (?st3 ''alice'')), snd (?st3 ''alice'') @ [BindEv ''cn=alice,ou=users,dc=x'' ''wrong'']))"
      using d b sa dn ex_attrs ex_bind_wrong [of "?st3 ''alice''"] ex_prefix by simp
    then show ?thesis
      using th [where password = "''wrong''" and username = "''alice''" and bindFunc = ?bf] by simp
  qed
  have 4: "fst (DryRunAuthenticateUser exTls exHeap ?p () ''bob'' (0, []))
       = (None, False,
          Some ''searching for user \"bob\" resulted in 2 search results, but expected 1 result'')"
    using th [where password = "''pw''" and username = "''bob''"
        and bindFunc = "\<lambda>conn foundUserDN st. (None, st)"] d b sb
    by (simp add: char_of_50)
  show ?thesis using 1 2 3 4 by blast
qed

text \<open>
  C7. The validation of the configuration fails exactly when the username attribute
  is \<open>dn\<close> and the filter is empty. Then \<open>AuthenticateUser\<close>,
  \<open>DryRunAuthenticateUser\<close> and \<open>TestConnection\<close> return this error, for every
  context, username and password, and leave the world and the record of the calls
  to the network as they were: nothing was dialled or bound.
\<close>

theorem config_error_before_io:
  "(validateConfig p = None \<longleftrightarrow>
      \<not> (UsernameAttribute (UserSearch (c p)) = ''dn''
           \<and> UserSearchConfig.Filter (UserSearch (c p)) = []))
   \<and> (UsernameAttribute (UserSearch (c p)) = ''dn''
        \<and> UserSearchConfig.Filter (UserSearch (c p)) = [] \<longrightarrow>
        AuthenticateUser sys h p ctx username password st = ((None, False, Some configError), st)
        \<and> DryRunAuthenticateUser sys h p ctx username st = ((None, False, Some configError), st)
        \<and> TestConnection sys h p ctx st = (Some configError, st))"
  by (simp add: validateConfig_def distinguishedNameAttributeName_def AuthenticateUser_def
      DryRunAuthenticateUser_def authenticateUserImpl_def TestConnection_def configError_def)

theorem config_error_before_io_witness:
  "validateConfig (New (exConfig ''dn'' ''(mail={})'')) = None
   \<and> validateConfig (New (exConfig ''cn'' [])) = None
   \<and> AuthenticateUser exTls exHeap (New (exConfig ''dn'' [])) () ''alice'' ''pw'' (0, [])
       = ((None, False, Some configError), (0, []))
   \<and> DryRunAuthenticateUser exTls exHeap (New (exConfig ''dn'' [])) () ''alice'' (0, [])
       = ((None, False, Some configError), (0, []))
   \<and> TestConnection exTls exHeap (New (exConfig ''dn'' [])) () (0, []) = (Some configError, (0, []))"
  using config_error_before_io [of "New (exConfig ''dn'' ''(mail={})'')"]
    config_error_before_io [of "New (exConfig ''cn'' [])"]
    config_error_before_io [of "New (exConfig ''dn'' [])" exTls exHeap "()" "''alice''" "''pw''" "(0, [])"]
  by (simp add: New_def exConfig_def)

section \<open>The configuration returned by the provider\<close>

text \<open>
  The operations of the provider read the heap only through the bytes of the CA
  bundle of its configuration.
\<close>

lemma dial_heap_frame:
  assumes "bytesOf h' (CABundle (c p)) = bytesOf h (CABundle (c p))"
  shows "dial sys h' p ctx st = dial sys h p ctx st"
proof -
  have a: "dialTLS sys h' p ctx hostAndPort st = dialTLS sys h p ctx hostAndPort st"
    for hostAndPort
    by (simp add: dialTLS_def assms)
  show ?thesis
    by (simp add: dial_def a split: sum.splits option.splits)
qed

lemma operations_heap_frame:
  assumes "bytesOf h' (CABundle (c p)) = bytesOf h (CABundle (c p))"
  shows "TestConnection sys h' p ctx st = TestConnection sys h p ctx st"
    and "authenticateUserImpl sys h' p ctx username bindFunc st
           = authenticateUserImpl sys h p ctx username bindFunc st"
  unfolding TestConnection_def authenticateUserImpl_def dial_heap_frame [OF assms]
  by simp_all

text \<open>
  What the shared bytes decide, for any system and any provider that dials by
  itself with a CA bundle: when the bundle parses, the dial is made; when it does
  not, \<open>TestConnection\<close> returns the parse error and nothing is dialled.
\<close>

lemma TestConnection_bundle_rejected:
  assumes "validateConfig p = None" and "Dialer (c p) = None" and "CABundle (c p) \<noteq> NilSlice"
    and "hostAndPortWithDefaultPort (Host (c p)) DefaultLdapsPort = Inr hostAndPort"
    and "\<not> AppendCertsFromPEM sys (bytesOf h (CABundle (c p)))"
  shows "TestConnection sys h p ctx st =
           (Some (''error dialing host \"'' @ Host (c p) @ ''\": ''
                    @ NewErrorNetwork ''could not parse CA bundle''), st)"
  using assms by (simp add: TestConnection_def dial_def dialTLS_def)

lemma TestConnection_bundle_accepted:
  assumes "validateConfig p = None" and "Dialer (c p) = None" and "CABundle (c p) \<noteq> NilSlice"
    and "hostAndPortWithDefaultPort (Host (c p)) DefaultLdapsPort = Inr hostAndPort"
    and "AppendCertsFromPEM sys (bytesOf h (CABundle (c p)))"
  shows "take (Suc (length (snd st))) (snd (snd (TestConnection sys h p ctx st)))
           = snd st @ [DialEv hostAndPort]"
proof -
  obtain r w where dc:
    "DialContext sys ctx (Some (bytesOf h (CABundle (c p)))) hostAndPort (fst st) = (r, w)"
    by (cases "DialContext sys ctx (Some (bytesOf h (CABundle (c p)))) hostAndPort (fst st)")
  show ?thesis
  proof (cases r)
    case (Inl err)
    then show ?thesis
      using assms dc by (simp add: TestConnection_def dial_def dialTLS_def callDial_def)
  next
    case (Inr conn)
    obtain b w2 where bd: "Bind conn (BindUsername (c p)) (BindPassword (c p)) w = (b, w2)"
      by (cases "Bind conn (BindUsername (c p)) (BindPassword (c p)) w")
    show ?thesis
      using assms dc Inr bd
      by (cases b)
         (simp_all add: TestConnection_def dial_def dialTLS_def callDial_def callBind_def
            callClose_def)
  qed
qed

text \<open>
  C9. The configuration that \<open>GetConfig\<close> returns shares the backing array of its CA
  bundle with the configuration of the provider. Here the bundle of the provider
  holds two hyphens; writing one byte through the bundle of the returned
  configuration changes these bytes, so that the next \<open>GetConfig\<close> returns a bundle
  that reads otherwise than before, and so does the provider's own bundle, the one
  its dial hands to the certificate parser.
\<close>

theorem GetConfig_shares_CABundle:
  "CABundle (GetConfig exTlsProvider) = CABundle (c exTlsProvider)
   \<and> bytesOf exHeap (CABundle (GetConfig exTlsProvider)) = [0x2D, 0x2D]
   \<and> setIndex exHeap (CABundle (GetConfig exTlsProvider)) 0 0 = Some (exHeap(0 := [0, 0x2D]))
   \<and> bytesOf (exHeap(0 := [0, 0x2D])) (CABundle (GetConfig exTlsProvider)) = [0, 0x2D]
   \<and> bytesOf (exHeap(0 := [0, 0x2D])) (CABundle (c exTlsProvider)) = [0, 0x2D]"
proof -
  have b: "CABundle (c exTlsProvider) = Slice 0 0 2"
    by (simp add: exTlsProvider_def New_def exConfig_def)
  show ?thesis
    by (simp add: GetConfig_def b exHeap_def)
qed

end
